theory Spec2Isabelle
  imports Complex_Main "HOL-Library.AList"
begin

section \<open>JavaScript values\<close>

text \<open>
  The backend adapters receive the decoded JSON of one output line as \<open>unknown\<close> and
  read it through unchecked casts, so raw events are modelled as untyped JavaScript
  values.  \<open>JUndefined\<close> never occurs inside decoded JSON; it is what reading a
  missing property yields.  Numbers are rationals (only their truthiness and identity
  are used), objects are association lists with the keys of the decoded object.
\<close>

datatype jsval =
    JUndefined
  | JNull
  | JBool bool
  | JNum rat
  | JStr string
  | JArr "jsval list"
  | JObj "(string \<times> jsval) list"

datatype error = TypeError

text \<open>\<open>!v\<close> of JavaScript: the falsy values are undefined, null, false, 0 and the empty string.\<close>

fun falsy :: "jsval \<Rightarrow> bool" where
  "falsy JUndefined = True"
| "falsy JNull = True"
| "falsy (JBool b) = (\<not> b)"
| "falsy (JNum n) = (n = 0)"
| "falsy (JStr s) = (s = [])"
| "falsy (JArr xs) = False"
| "falsy (JObj kvs) = False"

fun nullish :: "jsval \<Rightarrow> bool" where
  "nullish JUndefined = True"
| "nullish JNull = True"
| "nullish v = False"

text \<open>
  \<open>v.k\<close> on a receiver that is neither null nor undefined.  The adapters only read
  the field names of their wire formats, none of which is a built-in property of a
  string, number, boolean or array, so such receivers yield undefined.
\<close>

fun getProp :: "jsval \<Rightarrow> string \<Rightarrow> jsval" where
  "getProp (JObj kvs) k = (case map_of kvs k of Some v \<Rightarrow> v | None \<Rightarrow> JUndefined)"
| "getProp v k = JUndefined"

text \<open>\<open>v.k\<close> in general: reading a property of null or undefined throws a TypeError.\<close>

definition member :: "jsval \<Rightarrow> string \<Rightarrow> error + jsval" where
  "member v k = (if nullish v then Inl TypeError else Inr (getProp v k))"

text \<open>\<open>v?.k\<close>\<close>

definition optChain :: "jsval \<Rightarrow> string \<Rightarrow> jsval" where
  "optChain v k = (if nullish v then JUndefined else getProp v k)"

text \<open>\<open>a || b\<close>\<close>

definition orElse :: "jsval \<Rightarrow> jsval \<Rightarrow> jsval" where
  "orElse a b = (if falsy a then b else a)"

section \<open>The normalized event (backends/types.ts)\<close>

datatype EventType =
  Init | Text | Thinking | ToolStart | ToolResult | StepComplete | Error | BlockStart | BlockEnd

record Tokens =
  input :: jsval
  "output" :: jsval
  cached :: jsval

text \<open>Every field but the tag is optional; an absent field is \<open>JUndefined\<close> (\<open>None\<close> for the tokens object).\<close>

record StandardEvent =
  "type" :: EventType
  blockType :: jsval
  sessionId :: jsval
  "text" :: jsval
  toolName :: jsval
  toolInput :: jsval
  toolOutput :: jsval
  tokens :: "Tokens option"
  cost :: jsval
  durationMs :: jsval
  isStreaming :: jsval
  model :: jsval
  tools :: jsval
  errorMessage :: jsval

text \<open>The object literal \<open>{ type: t }\<close>; the adapters' literals set further fields on it.\<close>

definition event :: "EventType \<Rightarrow> StandardEvent" where
  "event t = \<lparr> type = t, blockType = JUndefined, sessionId = JUndefined, text = JUndefined,
     toolName = JUndefined, toolInput = JUndefined, toolOutput = JUndefined, tokens = None,
     cost = JUndefined, durationMs = JUndefined, isStreaming = JUndefined, model = JUndefined,
     tools = JUndefined, errorMessage = JUndefined \<rparr>"

section \<open>OpenCode backend adapter (backends/opencode-backend.ts)\<close>

record OpenCodeBackend =
  hasSeenInit :: bool

definition OpenCodeBackend_new :: OpenCodeBackend where
  "OpenCodeBackend_new = \<lparr> hasSeenInit = False \<rparr>"

definition OpenCode_parseStepStartEvent ::
  "OpenCodeBackend \<Rightarrow> jsval \<Rightarrow> StandardEvent option \<times> OpenCodeBackend" where
  "OpenCode_parseStepStartEvent this ev =
     (if \<not> hasSeenInit this
      then (Some ((event Init)\<lparr> sessionId := getProp ev ''sessionID'' \<rparr>),
            this\<lparr> hasSeenInit := True \<rparr>)
      else (None, this))"

definition OpenCode_parseTextEvent :: "jsval \<Rightarrow> StandardEvent option" where
  "OpenCode_parseTextEvent ev =
     (let txt = optChain (getProp ev ''part'') ''text'' in
      if falsy txt then None
      else Some ((event Text)\<lparr> text := txt, sessionId := getProp ev ''sessionID'',
                                isStreaming := JBool True \<rparr>))"

definition OpenCode_parseToolUseEvent :: "jsval \<Rightarrow> StandardEvent option" where
  "OpenCode_parseToolUseEvent ev =
     (let part = getProp ev ''part'' in
      if falsy part then None
      else
        let toolName = orElse (getProp part ''tool'') (JStr ''unknown'');
            state = getProp part ''state''
        in if falsy state
           then Some ((event ToolStart)\<lparr> toolName := toolName, sessionId := getProp ev ''sessionID'' \<rparr>)
           else if getProp state ''status'' = JStr ''completed''
           then Some ((event ToolResult)\<lparr> toolName := toolName,
                        toolInput := getProp state ''input'', toolOutput := getProp state ''output'',
                        sessionId := getProp ev ''sessionID'' \<rparr>)
           else Some ((event ToolStart)\<lparr> toolName := toolName,
                        toolInput := getProp state ''input'', sessionId := getProp ev ''sessionID'' \<rparr>))"

definition OpenCode_parseStepFinishEvent :: "jsval \<Rightarrow> StandardEvent" where
  "OpenCode_parseStepFinishEvent ev =
     (let part = getProp ev ''part'';
          toks = optChain part ''tokens''
      in (event StepComplete)\<lparr>
           cost := orElse (optChain part ''cost'') (JNum 0),
           tokens := (if falsy toks then None
                      else Some \<lparr> input = orElse (getProp toks ''input'') (JNum 0),
                                  output = orElse (getProp toks ''output'') (JNum 0),
                                  cached = orElse (optChain (getProp toks ''cache'') ''read'') (JNum 0) \<rparr>),
           sessionId := getProp ev ''sessionID'' \<rparr>)"

text \<open>
  \<open>parseEvent\<close>: the switch on \<open>event.type\<close> compares with \<open>===\<close>, so only a string
  tag selects a case.  The result is the thrown error or the returned event (\<open>None\<close> for
  null), together with the adapter afterwards.
\<close>

definition OpenCode_parseEvent ::
  "OpenCodeBackend \<Rightarrow> jsval \<Rightarrow> (error + StandardEvent option) \<times> OpenCodeBackend" where
  "OpenCode_parseEvent this rawEvent =
     (case member rawEvent ''type'' of
        Inl e \<Rightarrow> (Inl e, this)
      | Inr t \<Rightarrow>
          if t = JStr ''step_start'' then
            (case OpenCode_parseStepStartEvent this rawEvent of (r, this') \<Rightarrow> (Inr r, this'))
          else if t = JStr ''text'' then (Inr (OpenCode_parseTextEvent rawEvent), this)
          else if t = JStr ''tool_use'' then (Inr (OpenCode_parseToolUseEvent rawEvent), this)
          else if t = JStr ''step_finish'' then (Inr (Some (OpenCode_parseStepFinishEvent rawEvent)), this)
          else (Inr None, this))"

definition OpenCode_reset :: "OpenCodeBackend \<Rightarrow> OpenCodeBackend" where
  "OpenCode_reset this = this\<lparr> hasSeenInit := False \<rparr>"

text \<open>One run: the stream processor hands the decoded lines to \<open>parseEvent\<close> in order.\<close>

fun OpenCode_parseAll ::
  "OpenCodeBackend \<Rightarrow> jsval list \<Rightarrow> (error + StandardEvent option) list \<times> OpenCodeBackend" where
  "OpenCode_parseAll this [] = ([], this)"
| "OpenCode_parseAll this (e # es) =
     (case OpenCode_parseEvent this e of (r, this') \<Rightarrow>
        (case OpenCode_parseAll this' es of (rs, this'') \<Rightarrow> (r # rs, this'')))"

section \<open>Claude backend adapter (backends/claude-backend.ts)\<close>

definition Claude_parseSystemEvent :: "jsval \<Rightarrow> StandardEvent option" where
  "Claude_parseSystemEvent ev =
     (if getProp ev ''subtype'' = JStr ''init''
      then Some ((event Init)\<lparr> sessionId := getProp ev ''session_id'',
                   model := getProp ev ''model'', tools := getProp ev ''tools'' \<rparr>)
      else None)"

text \<open>
  The body of the loop over \<open>event.message.content\<close>: the event a single content block
  is turned into, \<open>None\<close> when none of the three branches applies to it.
\<close>

definition Claude_blockEvent :: "jsval \<Rightarrow> StandardEvent option" where
  "Claude_blockEvent block =
     (if getProp block ''type'' = JStr ''thinking'' \<and> \<not> falsy (getProp block ''text'')
      then Some ((event Thinking)\<lparr> text := getProp block ''text'' \<rparr>)
      else if getProp block ''type'' = JStr ''text'' \<and> \<not> falsy (getProp block ''text'')
      then Some ((event Text)\<lparr> text := getProp block ''text'' \<rparr>)
      else if getProp block ''type'' = JStr ''tool_use'' \<and> \<not> falsy (getProp block ''name'')
      then Some ((event ToolStart)\<lparr> toolName := getProp block ''name'',
                   toolInput := getProp block ''input'' \<rparr>)
      else None)"

text \<open>
  The \<open>for (const block of ...)\<close> loop: each branch returns from the function, so the
  loop ends at the first block with an event.  Reading \<open>block.type\<close> of a null element
  throws.
\<close>

fun Claude_contentLoop :: "jsval list \<Rightarrow> error + StandardEvent option" where
  "Claude_contentLoop [] = Inr None"
| "Claude_contentLoop (block # rest) =
     (if nullish block then Inl TypeError
      else case Claude_blockEvent block of
             Some e \<Rightarrow> Inr (Some e)
           | None \<Rightarrow> Claude_contentLoop rest)"

text \<open>
  A truthy \<open>content\<close> is iterated: an array by its elements, a string by its characters
  (one-character strings, which have no \<open>type\<close>, so no branch applies); any other
  truthy value is not iterable and the loop throws.
\<close>

definition Claude_parseAssistantEvent :: "jsval \<Rightarrow> error + StandardEvent option" where
  "Claude_parseAssistantEvent ev =
     (let content = optChain (getProp ev ''message'') ''content'' in
      if falsy content then Inr None
      else case content of
             JArr blocks \<Rightarrow> Claude_contentLoop blocks
           | JStr s \<Rightarrow> Inr None
           | _ \<Rightarrow> Inl TypeError)"

text \<open>
  \<open>stringify\<close> is the runtime's \<open>JSON.stringify\<close> on a defined value;
  \<open>JSON.stringify(undefined)\<close> is undefined.
\<close>

definition Claude_parseToolUseEvent :: "(jsval \<Rightarrow> string) \<Rightarrow> jsval \<Rightarrow> StandardEvent option" where
  "Claude_parseToolUseEvent stringify ev =
     (let toolName = orElse (getProp ev ''tool_name'') (JStr ''unknown'') in
      if getProp ev ''subtype'' = JStr ''input'' \<and> \<not> falsy (getProp ev ''input'')
      then Some ((event ToolStart)\<lparr> toolName := toolName, toolInput := getProp ev ''input'' \<rparr>)
      else if getProp ev ''subtype'' = JStr ''result''
      then
        let out = (case getProp ev ''result'' of
                     JStr r \<Rightarrow> JStr r
                   | JUndefined \<Rightarrow> JUndefined
                   | v \<Rightarrow> JStr (stringify v))
        in Some ((event ToolResult)\<lparr> toolName := toolName, toolOutput := out \<rparr>)
      else None)"

definition Claude_parseResultEvent :: "jsval \<Rightarrow> StandardEvent" where
  "Claude_parseResultEvent ev =
     (event StepComplete)\<lparr>
        durationMs := getProp ev ''duration_ms'',
        cost := getProp ev ''total_cost_usd'',
        tokens := (let usage = getProp ev ''usage'' in
                   if falsy usage then None
                   else Some \<lparr> input = getProp usage ''input_tokens'',
                               output = getProp usage ''output_tokens'',
                               cached = JUndefined \<rparr>) \<rparr>"

definition Claude_parseStreamEvent :: "jsval \<Rightarrow> StandardEvent option" where
  "Claude_parseStreamEvent ev =
     (let streamEvent = getProp ev ''event'' in
      if falsy streamEvent then None
      else if getProp streamEvent ''type'' = JStr ''content_block_delta'' then
        (let delta = getProp streamEvent ''delta'' in
         if optChain delta ''type'' = JStr ''text_delta'' \<and> \<not> falsy (getProp delta ''text'')
         then Some ((event Text)\<lparr> text := getProp delta ''text'', isStreaming := JBool True \<rparr>)
         else if optChain delta ''type'' = JStr ''thinking_delta'' \<and> \<not> falsy (getProp delta ''text'')
         then Some ((event Thinking)\<lparr> text := getProp delta ''text'', isStreaming := JBool True \<rparr>)
         else None)
      else if getProp streamEvent ''type'' = JStr ''content_block_start'' then
        (let blockType = optChain (getProp streamEvent ''content_block'') ''type'' in
         if blockType = JStr ''text'' \<or> blockType = JStr ''thinking''
         then Some ((event BlockStart)\<lparr> blockType := blockType \<rparr>)
         else None)
      else if getProp streamEvent ''type'' = JStr ''content_block_stop'' then Some (event BlockEnd)
      else None)"

definition Claude_parseEvent :: "(jsval \<Rightarrow> string) \<Rightarrow> jsval \<Rightarrow> error + StandardEvent option" where
  "Claude_parseEvent stringify rawEvent =
     (case member rawEvent ''type'' of
        Inl e \<Rightarrow> Inl e
      | Inr t \<Rightarrow>
          if t = JStr ''system'' then Inr (Claude_parseSystemEvent rawEvent)
          else if t = JStr ''assistant'' then Claude_parseAssistantEvent rawEvent
          else if t = JStr ''tool_use'' then Inr (Claude_parseToolUseEvent stringify rawEvent)
          else if t = JStr ''result'' then Inr (Some (Claude_parseResultEvent rawEvent))
          else if t = JStr ''stream_event'' then Inr (Claude_parseStreamEvent rawEvent)
          else Inr None)"

text \<open>
  The specification's reading of an assistant message, for comparison with
  \<open>Claude_parseAssistantEvent\<close>: the message is demultiplexed one block at a time,
  every block giving rise to its own event.  \<open>emitted\<close> lists the events one call of
  \<open>parseEvent\<close> hands to the stream processor.
\<close>

definition spec_demultiplexed :: "jsval \<Rightarrow> StandardEvent list" where
  "spec_demultiplexed ev =
     (case optChain (getProp ev ''message'') ''content'' of
        JArr blocks \<Rightarrow> List.map_filter Claude_blockEvent blocks
      | _ \<Rightarrow> [])"

fun emitted :: "error + StandardEvent option \<Rightarrow> StandardEvent list" where
  "emitted (Inr (Some e)) = [e]"
| "emitted r = []"

text \<open>The raw events of the scenarios below.\<close>

definition scenarioB :: "jsval list" where
  "scenarioB =
    [JObj [(''type'', JStr ''step_start''), (''sessionID'', JStr ''abc'')],
     JObj [(''type'', JStr ''text''),
           (''part'', JObj [(''text'', JStr ''hi''), (''sessionID'', JStr ''abc'')])],
     JObj [(''type'', JStr ''step_finish''),
           (''part'', JObj [(''tokens'', JObj [(''input'', JNum 5), (''output'', JNum 2)])])]]"

definition stepStart :: "string \<Rightarrow> jsval" where
  "stepStart sid = JObj [(''type'', JStr ''step_start''), (''sessionID'', JStr sid)]"

definition twoTextBlocks :: jsval where
  "twoTextBlocks =
     JObj [(''type'', JStr ''assistant''),
           (''message'', JObj [(''content'',
              JArr [JObj [(''type'', JStr ''text''), (''text'', JStr ''a'')],
                    JObj [(''type'', JStr ''text''), (''text'', JStr ''b'')]])])]"

section \<open>Conversation contexts (core/types.ts, core/settings.ts)\<close>

datatype BackendType = Claude | OpenCode

record ClaudeCodeSettings =
  backend :: BackendType
  claudeCodePath :: string
  autoDetectPath :: bool
  modelAlias :: string
  opencodePath :: string
  opencodeAutoDetect :: bool
  opencodeModel :: string
  customSystemPrompt :: string
  preserveCursorPosition :: bool
  timeoutSeconds :: int
  autoAcceptChanges :: bool
  allowVaultAccess :: bool
  enablePermissionlessMode :: bool
  anthropicBaseUrl :: string
  anthropicAuthToken :: string
  anthropicModel :: string
  anthropicSmallFastModel :: string
  language :: string

text \<open>
  Modelled from the spec: the request and response types and the runner class are declared
  in core/claude-code-runner.ts, which is not among the sources.  The request has the
  fields the view fills in; the response has the fields of the specification's Response;
  of the runner only the settings it is constructed with are kept.  Field names that
  other records or the parameters of the functions below also use carry the prefix of
  their record.
\<close>

text \<open>
  The text of a prompt is kept as its UTF-16 code units, which is what \<open>trim\<close> looks
  at; \<open>units\<close> gives the code units of a text of ASCII characters.
\<close>

type_synonym utf16 = "nat list"

definition units :: "string \<Rightarrow> utf16" where
  "units s = map of_char s"

record ClaudeCodeRequest =
  req_noteContent :: "string option"
  req_userPrompt :: utf16
  req_notePath :: "string option"
  req_selectedText :: "string option"
  req_vaultPath :: string
  req_configDir :: string
  req_runtimeModelOverride :: "string option"
  req_conversationalMode :: bool
  req_sessionDir :: "string option"
  req_bypassPermissions :: "bool option"

record TokenUsage =
  inputTokens :: "int option"
  outputTokens :: "int option"
  totalTokens :: "int option"

record ClaudeCodeResponse =
  success :: bool
  modifiedContent :: "string option"
  assistantMessage :: "string option"
  resp_error :: "string option"
  isPermissionRequest :: "bool option"
  resp_output :: "string list"
  tokenUsage :: "TokenUsage option"

datatype ClaudeCodeRunner = ClaudeCodeRunner (runnerSettings: ClaudeCodeSettings)

text \<open>A \<open>Date\<close> is kept as its ISO text, which is also what it is serialized to.\<close>

record SessionHistoryItem =
  item_prompt :: utf16
  item_timestamp :: string
  item_success :: bool
  item_notePath :: string
  item_response :: "ClaudeCodeResponse option"
  item_request :: "ClaudeCodeRequest option"
  item_outputLines :: "string list option"

record AgentStep =
  icon :: string
  action :: string
  target :: string
  key :: string
  startTime :: "int option"
  duration :: "int option"

typedecl HTMLButtonElement

record NoteContext =
  history :: "SessionHistoryItem list"
  sessionId :: "string option"
  currentResponse :: "ClaudeCodeResponse option"
  currentRequest :: "ClaudeCodeRequest option"
  outputLines :: "string list"
  agentSteps :: "AgentStep list"
  runner :: ClaudeCodeRunner
  isRunning :: bool
  runButton :: "HTMLButtonElement option"
  cancelButton :: "HTMLButtonElement option"
  waitingForResponse :: "bool option"
  selectedModel :: "string option"
  lastPrompt :: "utf16 option"
  pendingPreviewContent :: "string option"
  originalPreviewContent :: "string option"
  currentResultText :: "string option"
  executionStartTime :: "int option"
  baseStatusMessage :: "string option"

section \<open>The file system seen by the persistence code\<close>

text \<open>
  Paths are lists of segments and \<open>path.join\<close> is concatenation.  A file holds the
  text of a JSON value, identified with the value \<open>JSON.parse\<close> reads back from the
  text \<open>JSON.stringify\<close> wrote, or some text that \<open>JSON.parse\<close> rejects.  The JSON
  values are the two documents the plugin writes, an object of the shape of the
  \<open>SessionData\<close> interface (every field optional; a null session id reads as
  absent; plus the save time) and an array of history messages, and the values that are
  neither object nor array.
\<close>

type_synonym path = "string list"

record SessionData =
  sd_history :: "SessionHistoryItem list option"
  sd_sessionId :: "string option"
  sd_outputLines :: "string list option"
  sd_agentSteps :: "AgentStep list option"
  sd_notePath :: "string option"
  sd_pendingPreviewContent :: "string option"
  sd_originalPreviewContent :: "string option"
  sd_savedAt :: "string option"

record HistoryMessage =
  role :: string
  content :: string
  msg_timestamp :: string

datatype fsError = ENOENT | ENOTDIR | EISDIR | EEXIST | JsonSyntaxError | JsTypeError

datatype jsonAtom = JsonNull | JsonBool bool | JsonNumber rat | JsonString string

datatype json =
    ContextJson SessionData
  | HistoryJson "HistoryMessage list"
  | AtomJson jsonAtom

datatype fileContent = JsonText json | OtherText string

definition JSON_parse :: "fileContent \<Rightarrow> fsError + json" where
  "JSON_parse c = (case c of JsonText j \<Rightarrow> Inr j | OtherText t \<Rightarrow> Inl JsonSyntaxError)"

text \<open>
  The file system is a tree: a directory lists its entries by name.  A file system value
  is the list of entries of the root.
\<close>

datatype node = File fileContent | Dir "(string \<times> node) list"

type_synonym FileSystem = "(string \<times> node) list"



fun lookupNode :: "FileSystem \<Rightarrow> path \<Rightarrow> node option" where
  "lookupNode es [] = Some (Dir es)"
| "lookupNode es (s # p) =
     (case map_of es s of
        None \<Rightarrow> None
      | Some (File c) \<Rightarrow> (if p = [] then Some (File c) else None)
      | Some (Dir sub) \<Rightarrow> lookupNode sub p)"

definition existsSync :: "FileSystem \<Rightarrow> path \<Rightarrow> bool" where
  "existsSync fs p = (lookupNode fs p \<noteq> None)"

definition isDirectory :: "FileSystem \<Rightarrow> path \<Rightarrow> bool" where
  "isDirectory fs p = (case lookupNode fs p of Some (Dir sub) \<Rightarrow> True | _ \<Rightarrow> False)"

text \<open>\<open>fs.readdirSync\<close>: the names of the entries of a directory; it throws on anything else.\<close>

definition readdirSync :: "FileSystem \<Rightarrow> path \<Rightarrow> fsError + string list" where
  "readdirSync fs d =
     (case lookupNode fs d of
        None \<Rightarrow> Inl ENOENT
      | Some (File c) \<Rightarrow> Inl ENOTDIR
      | Some (Dir sub) \<Rightarrow> Inr (remdups (map fst sub)))"

definition readFileSync :: "FileSystem \<Rightarrow> path \<Rightarrow> fsError + fileContent" where
  "readFileSync fs p =
     (case lookupNode fs p of
        None \<Rightarrow> Inl ENOENT
      | Some (Dir sub) \<Rightarrow> Inl EISDIR
      | Some (File c) \<Rightarrow> Inr c)"

text \<open>
  \<open>fs.mkdirSync(p, { recursive: true })\<close>: creates the missing directories from the
  root down to \<open>p\<close>; it fails when one of them exists as a file.
\<close>

fun mkdirSync_recursive :: "FileSystem \<Rightarrow> path \<Rightarrow> fsError + FileSystem" where
  "mkdirSync_recursive es [] = Inr es"
| "mkdirSync_recursive es (s # p) =
     (case map_of es s of
        Some (File c) \<Rightarrow> Inl (if p = [] then EEXIST else ENOTDIR)
      | Some (Dir sub) \<Rightarrow>
          (case mkdirSync_recursive sub p of
             Inl e \<Rightarrow> Inl e
           | Inr sub' \<Rightarrow> Inr (AList.update s (Dir sub') es))
      | None \<Rightarrow>
          (case mkdirSync_recursive [] p of
             Inl e \<Rightarrow> Inl e
           | Inr sub' \<Rightarrow> Inr (es @ [(s, Dir sub')])))"

text \<open>
  \<open>fs.writeFileSync\<close>: the parent must be a directory and the path must not be one;
  an existing file is replaced, a new one is added to its directory.
\<close>

fun writeFileSync :: "FileSystem \<Rightarrow> path \<Rightarrow> fileContent \<Rightarrow> fsError + FileSystem" where
  "writeFileSync es [] c = Inl EISDIR"
| "writeFileSync es [s] c =
     (case map_of es s of
        Some (Dir sub) \<Rightarrow> Inl EISDIR
      | Some (File c') \<Rightarrow> Inr (AList.update s (File c) es)
      | None \<Rightarrow> Inr (es @ [(s, File c)]))"
| "writeFileSync es (s # t # p) c =
     (case map_of es s of
        None \<Rightarrow> Inl ENOENT
      | Some (File c') \<Rightarrow> Inl ENOTDIR
      | Some (Dir sub) \<Rightarrow>
          (case writeFileSync sub (t # p) c of
             Inl e \<Rightarrow> Inl e
           | Inr sub' \<Rightarrow> Inr (AList.update s (Dir sub') es)))"

section \<open>Note context manager (managers/note-context-manager.ts)\<close>

record NoteContextManager =
  contexts :: "string \<rightharpoonup> NoteContext"
  settings :: ClaudeCodeSettings
  dataDir :: path

definition createNewContext :: "NoteContextManager \<Rightarrow> NoteContext" where
  "createNewContext this =
     \<lparr> history = [], sessionId = None, currentResponse = None, currentRequest = None,
       outputLines = [], agentSteps = [], runner = ClaudeCodeRunner (settings this),
       isRunning = False, runButton = None, cancelButton = None, waitingForResponse = None,
       selectedModel = None, lastPrompt = None, pendingPreviewContent = None,
       originalPreviewContent = None, currentResultText = None, executionStartTime = None,
       baseStatusMessage = None \<rparr>"

text \<open>\<open>getContext\<close> returns the context of the key and the manager, in which it now exists.\<close>

definition getContext :: "NoteContextManager \<Rightarrow> string \<Rightarrow> NoteContext \<times> NoteContextManager" where
  "getContext this notePath =
     (case contexts this notePath of
        Some c \<Rightarrow> (c, this)
      | None \<Rightarrow> (createNewContext this,
                 this\<lparr> contexts := (contexts this)(notePath \<mapsto> createNewContext this) \<rparr>))"

text \<open>The context rebuilt from one context document.\<close>

definition reconstruct :: "NoteContextManager \<Rightarrow> SessionData \<Rightarrow> NoteContext" where
  "reconstruct this data =
     \<lparr> history = (case sd_history data of None \<Rightarrow> [] | Some h \<Rightarrow> h),
       sessionId = sd_sessionId data,
       currentResponse = None, currentRequest = None,
       outputLines = (case sd_outputLines data of None \<Rightarrow> [] | Some l \<Rightarrow> l),
       agentSteps = (case sd_agentSteps data of None \<Rightarrow> [] | Some a \<Rightarrow> a),
       runner = ClaudeCodeRunner (settings this),
       isRunning = False, runButton = None, cancelButton = None, waitingForResponse = None,
       selectedModel = None, lastPrompt = None,
       pendingPreviewContent = sd_pendingPreviewContent data,
       originalPreviewContent = sd_originalPreviewContent data,
       currentResultText = None, executionStartTime = None, baseStatusMessage = None \<rparr>"

text \<open>
  The body of the loop of \<open>loadContexts\<close> for one directory entry.  Reading and parsing
  happen inside \<open>try\<close>: a context file that is a directory or does not parse is skipped.
  A history document is an array, which has no \<open>notePath\<close>, so nothing is stored for it;
  neither is anything stored when \<open>notePath\<close> is missing or the empty string.
\<close>

definition loadEntry :: "FileSystem \<Rightarrow> path \<Rightarrow> NoteContextManager \<Rightarrow> string \<Rightarrow> NoteContextManager" where
  "loadEntry fs contextsDir this noteHash =
     (let contextFile = contextsDir @ [noteHash, ''context.json''] in
      if existsSync fs contextFile then
        (case readFileSync fs contextFile of
           Inr (JsonText (ContextJson data)) \<Rightarrow>
             (case sd_notePath data of
                Some np \<Rightarrow>
                  if np \<noteq> [] then this\<lparr> contexts := (contexts this)(np \<mapsto> reconstruct this data) \<rparr>
                  else this
              | None \<Rightarrow> this)
         | _ \<Rightarrow> this)
      else this)"

definition loadContexts ::
  "NoteContextManager \<Rightarrow> path \<Rightarrow> FileSystem \<Rightarrow> fsError + NoteContextManager" where
  "loadContexts this vaultPath fs =
     (let contextsDir = vaultPath @ dataDir this in
      if \<not> existsSync fs contextsDir then Inr this
      else case readdirSync fs contextsDir of
             Inl e \<Rightarrow> Inl e
           | Inr noteDirs \<Rightarrow> Inr (foldl (loadEntry fs contextsDir) this noteDirs))"

text \<open>
  \<open>saveContext\<close>.  \<open>md5\<close> is the hex digest \<open>crypto.createHash('md5')\<close> computes, a
  single path segment; \<open>now\<close> is the current time.  The call leaves the manager as it
  is; the result is the error thrown or the file system afterwards.
\<close>

definition saveContext ::
  "(string \<Rightarrow> string) \<Rightarrow> string \<Rightarrow> NoteContextManager \<Rightarrow> string \<Rightarrow> path \<Rightarrow> FileSystem
     \<Rightarrow> fsError + FileSystem" where
  "saveContext md5 now this notePath vaultPath fs =
     (case contexts this notePath of
        None \<Rightarrow> Inr fs
      | Some context \<Rightarrow>
          let noteHash = md5 notePath;
              contextDir = vaultPath @ dataDir this @ [noteHash];
              contextFile = contextDir @ [''context.json''];
              dataToSave = \<lparr> sd_history = Some (history context),
                             sd_sessionId = sessionId context,
                             sd_outputLines = Some (outputLines context),
                             sd_agentSteps = Some (agentSteps context),
                             sd_notePath = Some notePath,
                             sd_pendingPreviewContent = pendingPreviewContent context,
                             sd_originalPreviewContent = originalPreviewContent context,
                             sd_savedAt = Some now \<rparr>
          in case (if \<not> existsSync fs contextDir then mkdirSync_recursive fs contextDir else Inr fs) of
               Inl e \<Rightarrow> Inl e
             | Inr fs' \<Rightarrow> writeFileSync fs' contextFile (JsonText (ContextJson dataToSave)))"

definition clearHistory :: "NoteContextManager \<Rightarrow> string \<Rightarrow> NoteContextManager" where
  "clearHistory this notePath =
     (case contexts this notePath of
        Some context \<Rightarrow>
          this\<lparr> contexts := (contexts this)(notePath \<mapsto>
                   context\<lparr> history := [], outputLines := [], agentSteps := [] \<rparr>) \<rparr>
      | None \<Rightarrow> this)"

text \<open>The default settings of core/settings.ts, and the values the examples below use.\<close>

definition DEFAULT_SETTINGS :: ClaudeCodeSettings where
  "DEFAULT_SETTINGS =
     \<lparr> backend = Claude, claudeCodePath = '''', autoDetectPath = True, modelAlias = '''',
       opencodePath = '''', opencodeAutoDetect = True, opencodeModel = '''',
       customSystemPrompt = '''', preserveCursorPosition = True, timeoutSeconds = 300,
       autoAcceptChanges = False, allowVaultAccess = True, enablePermissionlessMode = False,
       anthropicBaseUrl = '''', anthropicAuthToken = '''', anthropicModel = '''',
       anthropicSmallFastModel = '''', language = ''en'' \<rparr>"

definition newManager :: NoteContextManager where
  "newManager = \<lparr> contexts = Map.empty, settings = DEFAULT_SETTINGS, dataDir = [''ctx''] \<rparr>"

definition busyContext :: NoteContext where
  "busyContext = (createNewContext newManager)
     \<lparr> history := [\<lparr> item_prompt = units ''p'', item_timestamp = ''t'', item_success = True,
                      item_notePath = ''a.md'', item_response = None, item_request = None,
                      item_outputLines = None \<rparr>],
       sessionId := Some ''s1'', outputLines := [''one'', ''two''], isRunning := True,
       pendingPreviewContent := Some ''draft'' \<rparr>"

definition oneNoteManager :: NoteContextManager where
  "oneNoteManager = newManager\<lparr> contexts := [''a.md'' \<mapsto> busyContext] \<rparr>"

section \<open>Conversation history of a session (core/session-manager.ts)\<close>

text \<open>
  \<open>history.slice(-20)\<close> on a history of more than 20 messages: its last 20.
\<close>

definition slice_last :: "nat \<Rightarrow> 'a list \<Rightarrow> 'a list" where
  "slice_last n xs = drop (length xs - n) xs"

text \<open>The two messages one exchange adds.\<close>

definition userMessage :: "string \<Rightarrow> string \<Rightarrow> HistoryMessage" where
  "userMessage now userPrompt = \<lparr> role = ''user'', content = userPrompt, msg_timestamp = now \<rparr>"

definition assistantMessage_of :: "string \<Rightarrow> string \<Rightarrow> HistoryMessage" where
  "assistantMessage_of now assistantResponse =
     \<lparr> role = ''assistant'', content = assistantResponse, msg_timestamp = now \<rparr>"

text \<open>
  \<open>saveConversationHistory\<close>.  A missing history file starts an empty history.  A file
  that cannot be read or does not parse makes the call throw, and so does one that parses
  to a value that is not an array, at \<open>history.push\<close>, which such a value does not have;
  the error is logged and rethrown before anything is written.  The clock is read once
  for each of the two messages (\<open>now1\<close>, \<open>now2\<close>).
\<close>

definition saveConversationHistory ::
  "string \<Rightarrow> string \<Rightarrow> FileSystem \<Rightarrow> path \<Rightarrow> string \<Rightarrow> string \<Rightarrow> fsError + FileSystem" where
  "saveConversationHistory now1 now2 fs sessionDir userPrompt assistantResponse =
     (let historyFile = sessionDir @ [''conversation_history.json''];
          loaded =
            (if existsSync fs historyFile then
               (case readFileSync fs historyFile of
                  Inl e \<Rightarrow> Inl e
                | Inr c \<Rightarrow>
                    (case JSON_parse c of
                       Inl e \<Rightarrow> Inl e
                     | Inr (HistoryJson h) \<Rightarrow> Inr h
                     | Inr (ContextJson d) \<Rightarrow> Inl JsTypeError
                     | Inr (AtomJson a) \<Rightarrow> Inl JsTypeError))
             else Inr [])
      in case loaded of
           Inl e \<Rightarrow> Inl e
         | Inr h \<Rightarrow>
             let h1 = h @ [userMessage now1 userPrompt];
                 h2 = h1 @ [assistantMessage_of now2 assistantResponse];
                 h3 = (if length h2 > 20 then slice_last 20 h2 else h2)
             in writeFileSync fs historyFile (JsonText (HistoryJson h3)))"

text \<open>
  \<open>loadConversationHistory\<close>: the value the history file parses to, returned as it is
  (the array type is only asserted), and the empty history when there is no file or
  reading or parsing it throws.
\<close>

definition loadConversationHistory :: "FileSystem \<Rightarrow> path \<Rightarrow> json" where
  "loadConversationHistory fs sessionDir =
     (let historyFile = sessionDir @ [''conversation_history.json''] in
      if existsSync fs historyFile then
        (case readFileSync fs historyFile of
           Inl e \<Rightarrow> HistoryJson []
         | Inr c \<Rightarrow> (case JSON_parse c of Inl e \<Rightarrow> HistoryJson [] | Inr j \<Rightarrow> j))
      else HistoryJson [])"

text \<open>
  A sequence of calls, each with its two times, prompt and response; it stops at the first
  error.
\<close>

fun saveAll ::
  "FileSystem \<Rightarrow> path \<Rightarrow> (string \<times> string \<times> string \<times> string) list \<Rightarrow> fsError + FileSystem" where
  "saveAll fs sessionDir [] = Inr fs"
| "saveAll fs sessionDir ((now1, now2, userPrompt, assistantResponse) # calls) =
     (case saveConversationHistory now1 now2 fs sessionDir userPrompt assistantResponse of
        Inl e \<Rightarrow> Inl e
      | Inr fs' \<Rightarrow> saveAll fs' sessionDir calls)"

text \<open>The messages a sequence of calls adds, in order.\<close>

fun exchanges :: "(string \<times> string \<times> string \<times> string) list \<Rightarrow> HistoryMessage list" where
  "exchanges [] = []"
| "exchanges ((now1, now2, userPrompt, assistantResponse) # calls) =
     userMessage now1 userPrompt # assistantMessage_of now2 assistantResponse # exchanges calls"

text \<open>
  The state in which the history can be saved: the session directory exists and the
  history file is either missing or holds a history.
\<close>

definition historyReady :: "FileSystem \<Rightarrow> path \<Rightarrow> bool" where
  "historyReady fs sessionDir \<longleftrightarrow>
     isDirectory fs sessionDir \<and>
     (case lookupNode fs (sessionDir @ [''conversation_history.json'']) of
        None \<Rightarrow> True | Some (File (JsonText (HistoryJson h))) \<Rightarrow> True | _ \<Rightarrow> False)"

text \<open>A session directory whose history file already holds 19 messages.\<close>

definition oldMessage :: HistoryMessage where
  "oldMessage = \<lparr> role = ''user'', content = ''old'', msg_timestamp = ''t0'' \<rparr>"

definition sessionFs :: FileSystem where
  "sessionFs =
     [(''vault'', Dir
        [(''s1'', Dir
           [(''conversation_history.json'',
             File (JsonText (HistoryJson (replicate 19 oldMessage))))])])]"

text \<open>
  The key under which \<open>loadContexts\<close> stores the entry \<open>noteHash\<close> of the contexts
  directory: the \<open>notePath\<close> of its context document, if it has one that loads.
\<close>

definition storedNotePath :: "FileSystem \<Rightarrow> path \<Rightarrow> string \<Rightarrow> string option" where
  "storedNotePath fs contextsDir noteHash =
     (case lookupNode fs (contextsDir @ [noteHash, ''context.json'']) of
        Some (File (JsonText (ContextJson data))) \<Rightarrow> sd_notePath data
      | _ \<Rightarrow> None)"

text \<open>
  Examples: a digest function standing in for md5, a vault with an empty root, a manager
  holding a context under the empty key (the key of the view before any note is opened).
\<close>

definition exampleDigest :: "string \<Rightarrow> string" where
  "exampleDigest s = ''md5-'' @ s"

definition vaultFs :: FileSystem where
  "vaultFs = [(''vault'', Dir [])]"

definition emptyKeyManager :: NoteContextManager where
  "emptyKeyManager = newManager\<lparr> contexts := ['''' \<mapsto> busyContext] \<rparr>"

definition quietContext :: NoteContext where
  "quietContext = (createNewContext newManager)\<lparr> outputLines := [''hello''] \<rparr>"

definition twoNotesManager :: NoteContextManager where
  "twoNotesManager = newManager\<lparr> contexts := [''a.md'' \<mapsto> busyContext, ''b.md'' \<mapsto> quietContext] \<rparr>"

text \<open>What \<open>saveContext\<close> writes for a context.\<close>

definition savedDocument :: "string \<Rightarrow> string \<Rightarrow> NoteContext \<Rightarrow> node" where
  "savedDocument now notePath context =
     File (JsonText (ContextJson
       \<lparr> sd_history = Some (history context), sd_sessionId = NoteContext.sessionId context,
         sd_outputLines = Some (outputLines context), sd_agentSteps = Some (agentSteps context),
         sd_notePath = Some notePath,
         sd_pendingPreviewContent = pendingPreviewContent context,
         sd_originalPreviewContent = originalPreviewContent context,
         sd_savedAt = Some now \<rparr>))"

definition emptyKeyFs :: FileSystem where
  "emptyKeyFs =
     [(''vault'', Dir [(''ctx'', Dir
        [(''md5-'', Dir [(''context.json'', savedDocument ''now'' '''' busyContext)])])])]"

definition oneNoteFs :: FileSystem where
  "oneNoteFs =
     [(''vault'', Dir [(''ctx'', Dir
        [(''md5-b.md'', Dir [(''context.json'', savedDocument ''t0'' ''b.md'' quietContext)])])])]"

definition twoNotesFs :: FileSystem where
  "twoNotesFs =
     [(''vault'', Dir [(''ctx'', Dir
        [(''md5-b.md'', Dir [(''context.json'', savedDocument ''t0'' ''b.md'' quietContext)]),
         (''md5-a.md'', Dir [(''context.json'', savedDocument ''now'' ''a.md'' busyContext)])])])]"

section \<open>Process spawner (core/process-spawner.ts)\<close>

text \<open>
  The host of the plugin: the platform, \<open>process.env\<close>, \<open>os.homedir()\<close>, the existence of
  files, the functions of Node's \<open>path\<close> module, and \<open>execSync\<close>, which either
  returns the standard output of the command or throws (the command fails, exceeds the
  timeout or overflows the buffer).  The optional debug callback only reports and is
  left out.
\<close>

datatype execError = ExitStatus int | ETIMEDOUT | ENOBUFS

record ExecSyncOptions =
  encoding :: string
  maxBuffer :: nat
  timeout :: nat
  exec_env :: "string \<rightharpoonup> string"

record Host =
  platform :: string
  processEnv :: "string \<rightharpoonup> string"
  homedir :: string
  execSync :: "string \<Rightarrow> ExecSyncOptions \<Rightarrow> execError + string"
  hostExists :: "string \<Rightarrow> bool"
  pathIsAbsolute :: "string \<Rightarrow> bool"
  pathJoin :: "string \<Rightarrow> string \<Rightarrow> string"
  pathBasename :: "string \<Rightarrow> string"

record SpawnConfig =
  claudePath :: string
  args :: "string list"
  workingDir :: string
  customEnvVars :: "(string \<times> string) list option"

text \<open>The call \<open>spawn(command, args, { cwd, env, shell })\<close> that creates the child process.\<close>

record ChildProcess =
  spawn_command :: string
  spawn_args :: "string list"
  spawn_cwd :: string
  spawn_env :: "string \<rightharpoonup> string"
  spawn_shell :: string

definition isWindows :: "Host \<Rightarrow> bool" where
  "isWindows host = (platform host = ''win32'')"

text \<open>\<open>env[name] || dflt\<close>: a missing or empty variable gives the default.\<close>

definition envOr :: "(string \<rightharpoonup> string) \<Rightarrow> string \<Rightarrow> string \<Rightarrow> string" where
  "envOr env name dflt = (case env name of Some v \<Rightarrow> (if v = [] then dflt else v) | None \<Rightarrow> dflt)"

definition getDefaultShell :: "Host \<Rightarrow> string" where
  "getDefaultShell host =
     (if isWindows host then envOr (processEnv host) ''COMSPEC'' ''cmd.exe''
      else envOr (processEnv host) ''SHELL'' ''/bin/sh'')"

definition getPathSeparator :: "Host \<Rightarrow> char" where
  "getPathSeparator host = (if isWindows host then CHR '';'' else CHR '':'')"

definition getShellName :: "Host \<Rightarrow> string \<Rightarrow> string" where
  "getShellName host shellPath = pathBasename host shellPath"

text \<open>\<open>s.split(c)\<close> for a one-character separator.\<close>

fun split :: "char \<Rightarrow> string \<Rightarrow> string list" where
  "split c [] = [[]]"
| "split c (x # xs) =
     (if x = c then [] # split c xs
      else case split c xs of
             [] \<Rightarrow> [[x]]
           | (w # ws) \<Rightarrow> (x # w) # ws)"

text \<open>
  The assignment \<open>env[key] = value\<close> of a string to a property of a plain object: it adds
  or replaces the property, except for the key \<open>__proto__\<close>, where it is the setter of
  the prototype, which ignores a string.
\<close>

definition setEnv :: "(string \<rightharpoonup> string) \<Rightarrow> string \<Rightarrow> string \<Rightarrow> (string \<rightharpoonup> string)" where
  "setEnv env k v = (if k = ''__proto__'' then env else env(k \<mapsto> v))"

text \<open>
  One line of the output of \<open>env\<close>: with \<open>idx = line.indexOf('=')\<close> and \<open>idx > 0\<close> the
  variable \<open>line.substring(0, idx)\<close> is set to \<open>line.substring(idx + 1)\<close>.
\<close>

definition parseEnvLine :: "(string \<rightharpoonup> string) \<Rightarrow> string \<Rightarrow> (string \<rightharpoonup> string)" where
  "parseEnvLine env line =
     (let k = takeWhile (\<lambda>x. x \<noteq> CHR ''='') line in
      if CHR ''='' \<in> set line \<and> k \<noteq> []
      then setEnv env k (tl (dropWhile (\<lambda>x. x \<noteq> CHR ''='') line))
      else env)"

definition parseEnvOutput :: "string \<Rightarrow> (string \<rightharpoonup> string)" where
  "parseEnvOutput envOutput = foldl parseEnvLine Map.empty (split (CHR 0x0A) envOutput)"

definition singleQuoted :: "string \<Rightarrow> string" where
  "singleQuoted s = CHR 0x27 # s @ [CHR 0x27]"

definition sourceCommand :: "string \<Rightarrow> string \<Rightarrow> string" where
  "sourceCommand shell shellName =
     (if shellName = ''zsh'' then
        shell @ '' -c '' @ singleQuoted
          ''source ~/.zshenv 2>/dev/null; source ~/.zprofile 2>/dev/null; source ~/.zshrc 2>/dev/null; env''
      else if shellName = ''bash'' then
        shell @ '' -c '' @ singleQuoted
          ''source ~/.profile 2>/dev/null; source ~/.bash_profile 2>/dev/null; source ~/.bashrc 2>/dev/null; env''
      else if shellName = ''fish'' then shell @ '' -l -c '' @ singleQuoted ''env''
      else shell @ '' -l -c '' @ singleQuoted ''env'')"

text \<open>The command and options with which the login shell is run on a Unix host.\<close>

definition shellProbe :: "Host \<Rightarrow> string \<times> ExecSyncOptions" where
  "shellProbe host =
     (let shell = envOr (processEnv host) ''SHELL'' ''/bin/sh'';
          shellName = getShellName host shell;
          homeDir = homedir host
      in (sourceCommand shell shellName,
          \<lparr> encoding = ''utf8'', maxBuffer = 10 * 1024 * 1024, timeout = 5000,
            exec_env = (processEnv host)(''HOME'' \<mapsto> homeDir) \<rparr>))"

text \<open>
  \<open>getShellEnvironment\<close>: on Windows a copy of \<open>process.env\<close>; otherwise the parsed
  output of the login shell, and in the \<open>catch\<close> branch, when running it throws, a copy
  of \<open>process.env\<close>.
\<close>

definition getShellEnvironment :: "Host \<Rightarrow> (string \<rightharpoonup> string)" where
  "getShellEnvironment host =
     (if isWindows host then processEnv host
      else case execSync host (fst (shellProbe host)) (snd (shellProbe host)) of
             Inr envOutput \<Rightarrow> parseEnvOutput envOutput
           | Inl e \<Rightarrow> processEnv host)"

text \<open>The custom variables override the shell's; empty values are not applied.\<close>

fun mergeCustomEnvVars :: "(string \<rightharpoonup> string) \<Rightarrow> (string \<times> string) list \<Rightarrow> (string \<rightharpoonup> string)" where
  "mergeCustomEnvVars shellEnv [] = shellEnv"
| "mergeCustomEnvVars shellEnv ((k, v) # rest) =
     mergeCustomEnvVars (if v \<noteq> [] then setEnv shellEnv k v else shellEnv) rest"

text \<open>
  The text that \<open>s.replace(pattern, replacement)\<close> puts in place of the first occurrence
  of the string \<open>pattern\<close>: the replacement with \<open>$$\<close> read as a dollar sign, \<open>$&\<close> as
  the matched text, \<open>$`\<close> as the text before the match and \<open>$'\<close> as the text after it
  (a string pattern has no groups, so any other \<open>$\<close> stands for itself).
\<close>

fun substitution :: "string \<Rightarrow> string \<Rightarrow> string \<Rightarrow> string \<Rightarrow> string" where
  "substitution matched preceding following (c # d # rest) =
     (if c = CHR ''$'' \<and> d = CHR ''$''
      then CHR ''$'' # substitution matched preceding following rest
      else if c = CHR ''$'' \<and> d = CHR ''&''
      then matched @ substitution matched preceding following rest
      else if c = CHR ''$'' \<and> d = CHR 0x60
      then preceding @ substitution matched preceding following rest
      else if c = CHR ''$'' \<and> d = CHR 0x27
      then following @ substitution matched preceding following rest
      else c # substitution matched preceding following (d # rest))"
| "substitution matched preceding following r = r"

text \<open>
  The inner loop over the extensions and the outer loop over the directories of PATH;
  in \<open>resolveClaudePath\<close> the \<open>~\<close> at the start of a path is replaced by the home
  directory with \<open>replace('~', homeDir)\<close>.
\<close>

fun tryExtensions :: "Host \<Rightarrow> string \<Rightarrow> string \<Rightarrow> string list \<Rightarrow> string" where
  "tryExtensions host dir resolved [] = resolved"
| "tryExtensions host dir resolved (ext # exts) =
     (let fullPath = pathJoin host dir (resolved @ ext) in
      if hostExists host fullPath then fullPath
      else tryExtensions host dir resolved exts)"

fun searchPath :: "Host \<Rightarrow> string list \<Rightarrow> string list \<Rightarrow> string \<Rightarrow> string" where
  "searchPath host [] exts resolved = resolved"
| "searchPath host (dir # dirs) exts resolved =
     (let r = tryExtensions host dir resolved exts in
      if pathIsAbsolute host r then r else searchPath host dirs exts r)"

definition resolveClaudePath :: "Host \<Rightarrow> (string \<rightharpoonup> string) \<Rightarrow> string \<Rightarrow> string" where
  "resolveClaudePath host shellEnv path0 =
     (let resolved =
            (case path0 of
               c # rest \<Rightarrow>
                 if c = CHR ''~''
                 then substitution ''~'' [] rest
                        (envOr shellEnv ''HOME'' (envOr shellEnv ''USERPROFILE'' (homedir host)))
                      @ rest
                 else path0
             | [] \<Rightarrow> path0)
      in if \<not> pathIsAbsolute host resolved then
           (let pathDirs = filter (\<lambda>dir. dir \<noteq> [])
                             (split (getPathSeparator host) (envOr shellEnv ''PATH'' ''''));
                extensions = (if isWindows host then ['''', ''.exe'', ''.cmd'', ''.bat''] else [''''])
            in searchPath host pathDirs extensions resolved)
         else resolved)"

definition envWithUtf8 :: "(string \<rightharpoonup> string) \<Rightarrow> (string \<rightharpoonup> string)" where
  "envWithUtf8 shellEnv =
     shellEnv(''LANG'' \<mapsto> envOr shellEnv ''LANG'' ''en_US.UTF-8'',
              ''LC_ALL'' \<mapsto> envOr shellEnv ''LC_ALL'' ''en_US.UTF-8'',
              ''LC_CTYPE'' \<mapsto> envOr shellEnv ''LC_CTYPE'' ''en_US.UTF-8'',
              ''PYTHONIOENCODING'' \<mapsto> ''utf-8'',
              ''NODE_OPTIONS'' \<mapsto>
                 (case shellEnv ''NODE_OPTIONS'' of
                    Some v \<Rightarrow> (if v = [] then [] else v @ '' --input-type=module'')
                  | None \<Rightarrow> []))"

definition spawn :: "Host \<Rightarrow> SpawnConfig \<Rightarrow> ChildProcess" where
  "spawn host config =
     (let shellEnv0 = getShellEnvironment host;
          shellEnv = (case customEnvVars config of
                        Some vars \<Rightarrow> mergeCustomEnvVars shellEnv0 vars
                      | None \<Rightarrow> shellEnv0);
          resolvedClaudePath = resolveClaudePath host shellEnv (claudePath config);
          shell = getDefaultShell host
      in \<lparr> spawn_command = resolvedClaudePath, spawn_args = args config,
           spawn_cwd = workingDir config, spawn_env = envWithUtf8 shellEnv,
           spawn_shell = shell \<rparr>)"

text \<open>Two hosts for the examples: a Unix host whose login shell times out, and a Windows host.\<close>

definition slowShellHost :: Host where
  "slowShellHost =
     \<lparr> platform = ''linux'',
       processEnv = [''PATH'' \<mapsto> ''/usr/bin'', ''SHELL'' \<mapsto> ''/bin/zsh''],
       homedir = ''/home/u'',
       execSync = (\<lambda>command options. Inl ETIMEDOUT),
       hostExists = (\<lambda>p. p = ''/usr/bin/claude''),
       pathIsAbsolute = (\<lambda>p. take 1 p = ''/''),
       pathJoin = (\<lambda>a b. a @ ''/'' @ b),
       pathBasename = (\<lambda>p. last (split (CHR ''/'') p)) \<rparr>"

definition windowsHost :: Host where
  "windowsHost =
     \<lparr> platform = ''win32'',
       processEnv = [''PATH'' \<mapsto> ''C:/bin''],
       homedir = ''C:/Users/u'',
       execSync = (\<lambda>command options. Inr ''PATH=/never/used''),
       hostExists = (\<lambda>p. False),
       pathIsAbsolute = (\<lambda>p. take 3 p = ''C:/''),
       pathJoin = (\<lambda>a b. a @ ''/'' @ b),
       pathBasename = (\<lambda>p. last (split (CHR ''/'') p)) \<rparr>"

definition claudeConfig :: SpawnConfig where
  "claudeConfig =
     \<lparr> claudePath = ''claude'', args = [''--print''], workingDir = ''/vault'',
       customEnvVars = Some [(''ANTHROPIC_MODEL'', ''opus''), (''EMPTY'', [])] \<rparr>"

section \<open>The run requests of the view (ui/view.ts)\<close>

text \<open>
  What the handlers read from the application when a button is pressed: the vault's base
  path and configuration directory, the active file, the open markdown views with their
  editors, the status texts and the clock, and the outcome of the two calls into the
  session manager that create directories on disk and can throw:
  \<open>SessionManager.createStandaloneSession\<close> and, for the active file,
  \<open>SessionManager.getSessionInfo\<close>, each giving the session directory.
\<close>

record Editor =
  getSelection :: string
  getValue :: string

record MarkdownView =
  view_file :: "string option"
  editor :: "Editor option"

record App =
  getBasePath :: string
  vault_configDir :: string
  getActiveFile :: "string option"
  markdownLeaves :: "MarkdownView list"
  createStandaloneSession :: "fsError + string"
  getSessionInfo :: "fsError + string"
  processingStatus :: string
  authorizedStatus :: string
  dateNow :: int

text \<open>
  The view: the context manager, the key of the displayed conversation, the controls of
  the input section, whether the permission approval section with its approve button is
  shown, and the two effects of a request that leave the view, the notices shown (by
  translation key) and the runs handed to a runner (by context key).  Changes to the
  rendered page that no decision depends on are not part of the state.
\<close>

record ClaudeCodeView =
  contextManager :: NoteContextManager
  pluginSettings :: ClaudeCodeSettings
  currentNotePath :: string
  activeStandaloneSession :: "string option"
  promptInput :: utf16
  selectedTextOnlyCheckbox :: bool
  conversationalModeCheckbox :: bool
  modelSelect :: string
  runButtonDisabled :: bool
  cancelButtonShown :: bool
  permissionApprovalShown :: bool
  notices :: "string list"
  started :: "(string \<times> ClaudeCodeRequest) list"

text \<open>
  \<open>s.trim()\<close> removes white space and line terminators from both ends: tab, line feed,
  vertical tab, form feed, carriage return, space, no-break space, the byte order mark,
  the line and paragraph separators and the other space separators of Unicode.
\<close>

definition isWhiteSpace :: "nat \<Rightarrow> bool" where
  "isWhiteSpace c =
     (c \<in> set [0x09, 0x0A, 0x0B, 0x0C, 0x0D, 0x20, 0xA0, 0x1680, 0x2028, 0x2029, 0x202F,
                0x205F, 0x3000, 0xFEFF]
      \<or> (0x2000 \<le> c \<and> c \<le> 0x200A))"

definition trim :: "utf16 \<Rightarrow> utf16" where
  "trim s = rev (dropWhile isWhiteSpace (rev (dropWhile isWhiteSpace s)))"

text \<open>A value that is a string or null, read as a condition.\<close>

definition truthy :: "string option \<Rightarrow> bool" where
  "truthy v = (case v of Some s \<Rightarrow> s \<noteq> [] | None \<Rightarrow> False)"

text \<open>
  An assignment to fields of the context of a key: the context is the one \<open>getContext\<close>
  returns, which creates it when the key has none.
\<close>

definition onContext ::
  "string \<Rightarrow> (NoteContext \<Rightarrow> NoteContext) \<Rightarrow> NoteContextManager \<Rightarrow> NoteContextManager" where
  "onContext notePath f this =
     (case getContext this notePath of
        (context, this') \<Rightarrow> this'\<lparr> contexts := (contexts this')(notePath \<mapsto> f context) \<rparr>)"

definition assign ::
  "string \<Rightarrow> (NoteContext \<Rightarrow> NoteContext) \<Rightarrow> ClaudeCodeView \<Rightarrow> ClaudeCodeView" where
  "assign notePath f this = this\<lparr> contextManager := onContext notePath f (contextManager this) \<rparr>"

definition updateCurrentNoteLabel :: "ClaudeCodeView \<Rightarrow> ClaudeCodeView" where
  "updateCurrentNoteLabel this =
     (let isStandalone = (take 11 (currentNotePath this) = ''standalone:'') in
      if (currentNotePath this \<noteq> [] \<and> \<not> isStandalone)
         \<or> isStandalone \<or> truthy (activeStandaloneSession this)
      then this\<lparr> contextManager := snd (getContext (contextManager this) (currentNotePath this)) \<rparr>
      else this)"

definition hidePreview :: "ClaudeCodeView \<Rightarrow> ClaudeCodeView" where
  "hidePreview this =
     assign (currentNotePath this)
       (\<lambda>context. context\<lparr> pendingPreviewContent := None, originalPreviewContent := None \<rparr>) this"

definition showLastPrompt :: "utf16 \<Rightarrow> ClaudeCodeView \<Rightarrow> ClaudeCodeView" where
  "showLastPrompt prompt this =
     assign (currentNotePath this) (\<lambda>context. context\<lparr> lastPrompt := Some prompt \<rparr>) this"

definition startElapsedTimeTracking :: "int \<Rightarrow> string \<Rightarrow> ClaudeCodeView \<Rightarrow> ClaudeCodeView" where
  "startElapsedTimeTracking now baseMessage this =
     assign (currentNotePath this)
       (\<lambda>context. context\<lparr> executionStartTime := Some now, baseStatusMessage := Some baseMessage \<rparr>)
       this"

text \<open>The first markdown leaf that shows the file.\<close>

definition findLeaf :: "MarkdownView list \<Rightarrow> string \<Rightarrow> MarkdownView option" where
  "findLeaf leaves filePath = find (\<lambda>view. view_file view = Some filePath) leaves"

text \<open>
  The markdown view \<open>handleRunClaudeCode\<close> takes for the active file: the first leaf
  showing it, else the first leaf.
\<close>

definition findActiveView :: "MarkdownView list \<Rightarrow> string \<Rightarrow> MarkdownView option" where
  "findActiveView leaves filePath =
     (case findLeaf leaves filePath of
        Some view \<Rightarrow> Some view
      | None \<Rightarrow> (case leaves of [] \<Rightarrow> None | view # rest \<Rightarrow> Some view))"

text \<open>The call \<open>context.runner.run(request, ...)\<close> for the context of \<open>key0\<close>.\<close>

definition runnerRun :: "string \<Rightarrow> ClaudeCodeRequest \<Rightarrow> ClaudeCodeView \<Rightarrow> ClaudeCodeView" where
  "runnerRun key0 req this = this\<lparr> started := started this @ [(key0, req)] \<rparr>"

text \<open>The request prepared for the run (\<open>context.currentRequest = { ... }\<close>).\<close>

definition prepareRequest ::
  "App \<Rightarrow> utf16 \<Rightarrow> string option \<Rightarrow> string option \<Rightarrow> string option \<Rightarrow> bool
     \<Rightarrow> ClaudeCodeView \<Rightarrow> ClaudeCodeRequest" where
  "prepareRequest app prompt file noteContent selectedText isStandaloneSession this =
     \<lparr> req_noteContent = noteContent, req_userPrompt = prompt, req_notePath = file,
       req_selectedText = selectedText, req_vaultPath = getBasePath app,
       req_configDir = vault_configDir app,
       req_runtimeModelOverride = (if modelSelect this = [] then None else Some (modelSelect this)),
       req_conversationalMode = conversationalModeCheckbox this,
       req_sessionDir = (if isStandaloneSession then activeStandaloneSession this else None),
       req_bypassPermissions = None \<rparr>"

text \<open>
  The \<open>catch\<close> block of \<open>handleRunClaudeCode\<close>: the context of \<open>key0\<close> is marked not
  running, its timing is cleared and the error is thrown on.
\<close>

definition failRun :: "string \<Rightarrow> fsError \<Rightarrow> ClaudeCodeView \<Rightarrow> fsError option \<times> ClaudeCodeView" where
  "failRun key0 e this =
     (Some e,
      assign key0 (\<lambda>context. context\<lparr> isRunning := False, executionStartTime := None,
                                       baseStatusMessage := None \<rparr>) this)"

text \<open>
  The part of \<open>handleRunClaudeCode\<close> from the request on, for the context \<open>key0\<close> that
  was current when the button was pressed.  In the order of the source: the request is
  stored in that context, the buttons switch, the context's output is cleared, the preview
  of the displayed context is dropped, the result text is cleared, prompt and status are
  shown (\<open>prepareRun\<close>); the session directory for tracking created files is
  determined, for a note by \<open>getSessionInfo\<close>, which can throw; then the context is
  marked running, the header is updated and the runner is started (\<open>launch\<close>).
\<close>

definition prepareRun ::
  "App \<Rightarrow> string \<Rightarrow> utf16 \<Rightarrow> ClaudeCodeRequest \<Rightarrow> ClaudeCodeView \<Rightarrow> ClaudeCodeView" where
  "prepareRun app key0 prompt req =
     startElapsedTimeTracking (dateNow app) (processingStatus app)
     \<circ> showLastPrompt prompt
     \<circ> assign key0 (\<lambda>context. context\<lparr> currentResultText := None \<rparr>)
     \<circ> hidePreview
     \<circ> assign key0 (\<lambda>context. context\<lparr> outputLines := [] \<rparr>)
     \<circ> (\<lambda>v. v\<lparr> runButtonDisabled := True, cancelButtonShown := True \<rparr>)
     \<circ> assign key0 (\<lambda>context. context\<lparr> currentRequest := Some req \<rparr>)"

definition launch :: "string \<Rightarrow> ClaudeCodeRequest \<Rightarrow> ClaudeCodeView \<Rightarrow> ClaudeCodeView" where
  "launch key0 req =
     runnerRun key0 req
     \<circ> updateCurrentNoteLabel
     \<circ> assign key0 (\<lambda>context. context\<lparr> isRunning := True \<rparr>)"

definition startRun ::
  "App \<Rightarrow> string \<Rightarrow> utf16 \<Rightarrow> string option \<Rightarrow> string option \<Rightarrow> string option \<Rightarrow> bool
     \<Rightarrow> ClaudeCodeView \<Rightarrow> fsError option \<times> ClaudeCodeView" where
  "startRun app key0 prompt file noteContent selectedText isStandaloneSession this =
     (let req = prepareRequest app prompt file noteContent selectedText isStandaloneSession this;
          v = prepareRun app key0 prompt req this
      in if isStandaloneSession \<and> truthy (activeStandaloneSession v)
         then (None, launch key0 req v)
         else case file of
                None \<Rightarrow> (None, launch key0 req v)
              | Some filePath \<Rightarrow>
                  (case getSessionInfo app of
                     Inl e \<Rightarrow> failRun key0 e v
                   | Inr sessionDirForTracking \<Rightarrow> (None, launch key0 req v)))"

text \<open>
  \<open>handleRunClaudeCode\<close> up to the call of \<open>context.runner.run\<close>, where it waits for
  the run.  \<open>context\<close> is the context of the current key at entry.  The result is the
  error the handler throws, if any, and the view.
\<close>

definition handleRunClaudeCode :: "App \<Rightarrow> ClaudeCodeView \<Rightarrow> fsError option \<times> ClaudeCodeView" where
  "handleRunClaudeCode app this =
     (case getContext (contextManager this) (currentNotePath this) of
        (context, manager) \<Rightarrow>
          let key0 = currentNotePath this;
              v0 = this\<lparr> contextManager := manager \<rparr>
          in if isRunning context
             then (None, v0\<lparr> notices := notices v0 @ [''notice.alreadyProcessing''] \<rparr>)
             else
               let prompt = trim (promptInput v0) in
               if prompt = []
               then (None, v0\<lparr> notices := notices v0 @ [''notice.enterPrompt''] \<rparr>)
               else
                 let v1 = v0\<lparr> promptInput := [] \<rparr> in
                 if getBasePath app = []
                 then (None, v1\<lparr> notices := notices v1 @ [''notice.noVaultPath''] \<rparr>)
                 else if truthy (activeStandaloneSession v1)
                 then startRun app key0 prompt None None None True v1
                 else
                   (case getActiveFile app of
                      None \<Rightarrow>
                        (case createStandaloneSession app of
                           Inl e \<Rightarrow> failRun key0 e v1
                         | Inr sessionDir \<Rightarrow>
                             let v2 = v1\<lparr> activeStandaloneSession := Some sessionDir,
                                           currentNotePath := ''standalone:'' @ sessionDir \<rparr>;
                                 v3 = updateCurrentNoteLabel v2
                             in startRun app key0 prompt None None None True v3)
                    | Some filePath \<Rightarrow>
                        (case findActiveView (markdownLeaves app) filePath of
                           None \<Rightarrow> (None, v1\<lparr> notices := notices v1 @ [''notice.noEditor''] \<rparr>)
                         | Some activeView \<Rightarrow>
                             (case editor activeView of
                                None \<Rightarrow> (None, v1\<lparr> notices := notices v1 @ [''notice.noEditor''] \<rparr>)
                              | Some ed \<Rightarrow>
                                  let useSelectedTextOnly =
                                        (selectedTextOnlyCheckbox v1 \<and> getSelection ed \<noteq> [])
                                  in startRun app key0 prompt (Some filePath) (Some (getValue ed))
                                       (if useSelectedTextOnly then Some (getSelection ed) else None)
                                       False v1))))"

text \<open>
  \<open>handleApprovePermission\<close>, the handler of the approve button, up to its call of
  \<open>context.runner.run\<close>.  It reads the pending request of the current context, hides
  the approval section, and with an editor on the active file runs the request again with
  the approval as prompt and permissions bypassed.  It does not read \<open>isRunning\<close>.
\<close>

definition approvalPrompt :: utf16 where
  "approvalPrompt = units (''Yes, I approve. You have permissionless mode enabled - please proceed with the action you were asking about. Don'' @ [CHR 0x27] @ ''t hesitate to execute it.'')"

definition handleApprovePermission :: "App \<Rightarrow> ClaudeCodeView \<Rightarrow> ClaudeCodeView" where
  "handleApprovePermission app this =
     (case getContext (contextManager this) (currentNotePath this) of
        (context, manager) \<Rightarrow>
          let key0 = currentNotePath this;
              v0 = this\<lparr> contextManager := manager \<rparr>
          in case currentRequest context of
               None \<Rightarrow> v0\<lparr> notices := notices v0 @ [''misc.noPendingRequest''] \<rparr>
             | Some pending \<Rightarrow>
                 let v1 = v0\<lparr> permissionApprovalShown := False \<rparr> in
                 (case getActiveFile app of
                    None \<Rightarrow> v1\<lparr> notices := notices v1 @ [''notice.noActiveNote''] \<rparr>
                  | Some filePath \<Rightarrow>
                      (case findLeaf (markdownLeaves app) filePath of
                         None \<Rightarrow> v1\<lparr> notices := notices v1 @ [''notice.noEditor''] \<rparr>
                       | Some activeView \<Rightarrow>
                           (case editor activeView of
                              None \<Rightarrow> v1\<lparr> notices := notices v1 @ [''notice.noEditor''] \<rparr>
                            | Some ed \<Rightarrow>
                                let newRequest = pending\<lparr> req_userPrompt := approvalPrompt,
                                                         req_bypassPermissions := Some True,
                                                         req_configDir := vault_configDir app \<rparr>
                                in (runnerRun key0 newRequest
                                    \<circ> assign key0 (\<lambda>context. context\<lparr> isRunning := True \<rparr>)
                                    \<circ> startElapsedTimeTracking (dateNow app) (authorizedStatus app)
                                    \<circ> hidePreview
                                    \<circ> (\<lambda>v. v\<lparr> runButtonDisabled := True,
                                                cancelButtonShown := True \<rparr>)) v1))))"

text \<open>The user types a prompt into the input.\<close>

definition typePrompt :: "utf16 \<Rightarrow> ClaudeCodeView \<Rightarrow> ClaudeCodeView" where
  "typePrompt p this = this\<lparr> promptInput := p \<rparr>"

text \<open>
  A view showing the note a.md whose run is in flight, and an application with that note
  open in an editor.
\<close>

definition firstRequest :: ClaudeCodeRequest where
  "firstRequest =
     \<lparr> req_noteContent = Some ''text'', req_userPrompt = units ''first'',
       req_notePath = Some ''a.md'', req_selectedText = None,
       req_vaultPath = ''/vault'', req_configDir = ''.obsidian'',
       req_runtimeModelOverride = None, req_conversationalMode = False,
       req_sessionDir = None, req_bypassPermissions = None \<rparr>"

definition busyView :: ClaudeCodeView where
  "busyView =
     \<lparr> contextManager = oneNoteManager, pluginSettings = DEFAULT_SETTINGS,
       currentNotePath = ''a.md'', activeStandaloneSession = None,
       promptInput = units ''again'', selectedTextOnlyCheckbox = False,
       conversationalModeCheckbox = False, modelSelect = [],
       runButtonDisabled = True, cancelButtonShown = True, permissionApprovalShown = False,
       notices = [], started = [(''a.md'', firstRequest)] \<rparr>"

definition noteApp :: App where
  "noteApp =
     \<lparr> getBasePath = ''/vault'', vault_configDir = ''.obsidian'', getActiveFile = Some ''a.md'',
       markdownLeaves = [\<lparr> view_file = Some ''a.md'',
                           editor = Some \<lparr> getSelection = [], getValue = ''text'' \<rparr> \<rparr>],
       createStandaloneSession = Inr ''/vault/.obsidian/claude-code-sessions/s0'',
       getSessionInfo = Inr ''/vault/.obsidian/claude-code-sessions/n0'',
       processingStatus = ''Claude Code is processing'',
       authorizedStatus = ''Running authorized tasks'', dateNow = 1000 \<rparr>"

text \<open>
  A view on the note a.md after a run that ended with a permission request: the context
  is idle and holds the request, the approval section is shown, and the user has typed a
  new prompt.
\<close>

definition pendingContext :: NoteContext where
  "pendingContext = (createNewContext newManager)
     \<lparr> currentRequest := Some firstRequest,
       currentResponse := Some \<lparr> success = True, modifiedContent = None,
                                 assistantMessage = Some ''May I edit the note?'',
                                 resp_error = None, isPermissionRequest = Some True,
                                 resp_output = [], tokenUsage = None \<rparr> \<rparr>"

definition pendingView :: ClaudeCodeView where
  "pendingView =
     \<lparr> contextManager = newManager\<lparr> contexts := [''a.md'' \<mapsto> pendingContext] \<rparr>,
       pluginSettings = DEFAULT_SETTINGS,
       currentNotePath = ''a.md'', activeStandaloneSession = None,
       promptInput = units ''second'', selectedTextOnlyCheckbox = False,
       conversationalModeCheckbox = False, modelSelect = [],
       runButtonDisabled = False, cancelButtonShown = False, permissionApprovalShown = True,
       notices = [], started = [] \<rparr>"

text \<open>
  A view just opened with no note: the current key is empty, there is no context and no
  standalone session yet; the application has no active file.
\<close>

definition freshView :: ClaudeCodeView where
  "freshView =
     \<lparr> contextManager = newManager, pluginSettings = DEFAULT_SETTINGS,
       currentNotePath = [], activeStandaloneSession = None,
       promptInput = units ''help'', selectedTextOnlyCheckbox = False,
       conversationalModeCheckbox = False, modelSelect = [],
       runButtonDisabled = False, cancelButtonShown = False, permissionApprovalShown = False,
       notices = [], started = [] \<rparr>"

definition noNoteApp :: App where
  "noNoteApp = noteApp\<lparr> getActiveFile := None, markdownLeaves := [] \<rparr>"

definition standaloneRequest :: "utf16 \<Rightarrow> ClaudeCodeRequest" where
  "standaloneRequest prompt =
     \<lparr> req_noteContent = None, req_userPrompt = prompt, req_notePath = None,
       req_selectedText = None, req_vaultPath = ''/vault'', req_configDir = ''.obsidian'',
       req_runtimeModelOverride = None, req_conversationalMode = False,
       req_sessionDir = Some ''/vault/.obsidian/claude-code-sessions/s0'',
       req_bypassPermissions = None \<rparr>"

definition secondRequest :: ClaudeCodeRequest where
  "secondRequest = firstRequest\<lparr> req_userPrompt := units ''second'' \<rparr>"

text \<open>
  Two sequences of requests.  A run is requested by the run button or by the Enter key in
  the prompt input, which calls \<open>handleRunClaudeCode\<close> whatever the state of the button.
  In the first sequence the view has no note: a run is requested, the user types another
  prompt and requests a run again.  In the second the view shows the approval section of
  an earlier permission request: a run is requested for the new prompt and then the
  approve button is pressed.
\<close>

definition standaloneFirst :: ClaudeCodeView where
  "standaloneFirst = snd (handleRunClaudeCode noNoteApp freshView)"

definition standaloneSecond :: ClaudeCodeView where
  "standaloneSecond = snd (handleRunClaudeCode noNoteApp (typePrompt (units ''more'') standaloneFirst))"

definition pendingRun :: ClaudeCodeView where
  "pendingRun = snd (handleRunClaudeCode noteApp pendingView)"

definition approvedRun :: ClaudeCodeView where
  "approvedRun = handleApprovePermission noteApp pendingRun"

section \<open>Properties of the OpenCode adapter\<close>

lemma stepStart_member:
  "getProp e ''type'' = JStr ''step_start'' \<Longrightarrow> member e ''type'' = Inr (JStr ''step_start'')"
  by (cases e) (simp_all add: member_def)

lemma parseEvent_keeps_seen: "hasSeenInit b \<Longrightarrow> hasSeenInit (snd (OpenCode_parseEvent b e))"
  by (auto simp: OpenCode_parseEvent_def OpenCode_parseStepStartEvent_def split: sum.splits)

lemma snd_parseAll_Cons:
  "snd (OpenCode_parseAll b (e # es)) = snd (OpenCode_parseAll (snd (OpenCode_parseEvent b e)) es)"
  by (simp split: prod.splits)

lemma parseAll_keeps_seen: "hasSeenInit b \<Longrightarrow> hasSeenInit (snd (OpenCode_parseAll b es))"
proof (induction es arbitrary: b)
  case Nil
  then show ?case by simp
next
  case (Cons e es)
  have "hasSeenInit (snd (OpenCode_parseEvent b e))"
    using Cons.prems by (rule parseEvent_keeps_seen)
  then have "hasSeenInit (snd (OpenCode_parseAll (snd (OpenCode_parseEvent b e)) es))"
    by (rule Cons.IH)
  then show ?case by (simp only: snd_parseAll_Cons)
qed

lemma first_step_start:
  assumes "getProp e ''type'' = JStr ''step_start''"
  shows "OpenCode_parseEvent (OpenCode_reset b) e =
           (Inr (Some ((event Init)\<lparr> StandardEvent.sessionId := getProp e ''sessionID'' \<rparr>)),
            b\<lparr> hasSeenInit := True \<rparr>)"
  using stepStart_member[OF assms]
  by (simp add: OpenCode_parseEvent_def OpenCode_parseStepStartEvent_def OpenCode_reset_def)

lemma later_step_start:
  assumes "getProp e ''type'' = JStr ''step_start''" "hasSeenInit b"
  shows "OpenCode_parseEvent b e = (Inr None, b)"
  using stepStart_member[OF assms(1)] assms(2)
  by (simp add: OpenCode_parseEvent_def OpenCode_parseStepStartEvent_def)

text \<open>
  C2.  On an OpenCode adapter that has just been reset (whatever its state was before)
  the three raw events of the scenario
  (step_start with session id abc, text hi, step_finish with 5 input and 2 output tokens)
  are parsed, in order, into exactly three events: init with sessionId abc, text hi with
  isStreaming true, and step_complete with token counts input 5 and output 2 (the
  step_complete event also carries cost 0 and 0 cached tokens, the defaults of the adapter).
\<close>

theorem opencode_scenario_sequence:
  "fst (OpenCode_parseAll (OpenCode_reset b) scenarioB) =
   [Inr (Some ((event Init)\<lparr> StandardEvent.sessionId := JStr ''abc'' \<rparr>)),
    Inr (Some ((event Text)\<lparr> text := JStr ''hi'', isStreaming := JBool True \<rparr>)),
    Inr (Some ((event StepComplete)\<lparr> cost := JNum 0,
        tokens := Some \<lparr> input = JNum 5, output = JNum 2, cached = JNum 0 \<rparr> \<rparr>))]"
  by (simp add: scenarioB_def OpenCode_reset_def OpenCode_parseEvent_def
        member_def OpenCode_parseStepStartEvent_def OpenCode_parseTextEvent_def
        OpenCode_parseStepFinishEvent_def optChain_def orElse_def event_def)

lemma other_event_keeps_state:
  "getProp e ''type'' \<noteq> JStr ''step_start'' \<Longrightarrow> snd (OpenCode_parseEvent b e) = b"
  by (simp add: OpenCode_parseEvent_def member_def)

lemma other_event_not_init:
  "getProp e ''type'' \<noteq> JStr ''step_start'' \<Longrightarrow> OpenCode_parseEvent b e = (Inr (Some ev), b')
     \<Longrightarrow> type ev \<noteq> Init"
  by (auto simp: OpenCode_parseEvent_def member_def OpenCode_parseTextEvent_def
        OpenCode_parseToolUseEvent_def OpenCode_parseStepFinishEvent_def Let_def event_def
        split: if_splits)

lemma other_events_keep_state:
  "\<forall>e\<in>set es. getProp e ''type'' \<noteq> JStr ''step_start'' \<Longrightarrow> snd (OpenCode_parseAll b es) = b"
proof (induction es arbitrary: b)
  case Nil
  then show ?case by simp
next
  case (Cons e es)
  then have "snd (OpenCode_parseEvent b e) = b" by (simp add: other_event_keeps_state)
  moreover have "snd (OpenCode_parseAll b es) = b" using Cons by simp
  ultimately show ?case by (simp only: snd_parseAll_Cons)
qed

lemma other_events_not_init:
  "\<forall>e\<in>set es. getProp e ''type'' \<noteq> JStr ''step_start'' \<Longrightarrow>
   Inr (Some ev) \<in> set (fst (OpenCode_parseAll b es)) \<Longrightarrow> type ev \<noteq> Init"
proof (induction es arbitrary: b)
  case Nil
  then show ?case by simp
next
  case (Cons e es)
  obtain r b' where p: "OpenCode_parseEvent b e = (r, b')" by (cases "OpenCode_parseEvent b e")
  obtain rs b'' where q: "OpenCode_parseAll b' es = (rs, b'')" by (cases "OpenCode_parseAll b' es")
  from Cons.prems(2) p q have "r = Inr (Some ev) \<or> Inr (Some ev) \<in> set (fst (OpenCode_parseAll b' es))"
    by auto
  then show ?case
  proof
    assume "r = Inr (Some ev)"
    with p Cons.prems(1) show ?thesis by (auto dest: other_event_not_init)
  next
    assume "Inr (Some ev) \<in> set (fst (OpenCode_parseAll b' es))"
    with Cons.IH Cons.prems(1) show ?thesis by simp
  qed
qed

text \<open>
  C3.  After reset, the first step_start event of a run, whatever other events were parsed
  before it, is returned as an init event carrying that event's session id, and none of
  the events before it is returned as init; every later step_start of the same run
  (whatever raw events were parsed in between) returns null; and after another reset the
  first step_start is an init event again.
\<close>

theorem opencode_first_step_start_is_init:
  assumes e1: "getProp e1 ''type'' = JStr ''step_start''"
      and e2: "getProp e2 ''type'' = JStr ''step_start''"
      and e3: "getProp e3 ''type'' = JStr ''step_start''"
      and p1: "\<forall>e\<in>set before1. getProp e ''type'' \<noteq> JStr ''step_start''"
      and p3: "\<forall>e\<in>set before3. getProp e ''type'' \<noteq> JStr ''step_start''"
      and b0: "b0 = snd (OpenCode_parseAll (OpenCode_reset b) before1)"
      and b1: "b1 = snd (OpenCode_parseEvent b0 e1)"
      and b2: "b2 = snd (OpenCode_parseAll b1 between)"
      and b3: "b3 = snd (OpenCode_parseAll (OpenCode_reset b2) before3)"
  shows "fst (OpenCode_parseEvent b0 e1) =
           Inr (Some ((event Init)\<lparr> StandardEvent.sessionId := getProp e1 ''sessionID'' \<rparr>))
       \<and> (\<forall>ev. Inr (Some ev) \<in> set (fst (OpenCode_parseAll (OpenCode_reset b) before1))
              \<longrightarrow> type ev \<noteq> Init)
       \<and> OpenCode_parseEvent b2 e2 = (Inr None, b2)
       \<and> fst (OpenCode_parseEvent b3 e3) =
           Inr (Some ((event Init)\<lparr> StandardEvent.sessionId := getProp e3 ''sessionID'' \<rparr>))"
proof -
  have 0: "b0 = OpenCode_reset b" unfolding b0 using p1 by (rule other_events_keep_state)
  have 3: "b3 = OpenCode_reset b2" unfolding b3 using p3 by (rule other_events_keep_state)
  have "hasSeenInit b1" by (simp add: b1 0 first_step_start[OF e1])
  then have "hasSeenInit b2" unfolding b2 by (rule parseAll_keeps_seen)
  then show ?thesis
    using other_events_not_init[OF p1]
    by (simp add: 0 3 first_step_start[OF e1] first_step_start[OF e3] later_step_start[OF e2])
qed

theorem opencode_first_step_start_is_init_witness:
  "getProp (stepStart ''s1'') ''type'' = JStr ''step_start''
   \<and> getProp (stepStart ''s2'') ''type'' = JStr ''step_start''
   \<and> getProp (stepStart ''s3'') ''type'' = JStr ''step_start''
   \<and> fst (OpenCode_parseAll (OpenCode_reset OpenCodeBackend_new)
            (tl scenarioB @ [stepStart ''s1''] @ scenarioB @ [stepStart ''s2''])) =
        [Inr (Some ((event Text)\<lparr> text := JStr ''hi'', isStreaming := JBool True \<rparr>)),
         Inr (Some ((event StepComplete)\<lparr> cost := JNum 0,
            tokens := Some \<lparr> input = JNum 5, output = JNum 2, cached = JNum 0 \<rparr> \<rparr>)),
         Inr (Some ((event Init)\<lparr> StandardEvent.sessionId := JStr ''s1'' \<rparr>)),
         Inr None,
         Inr (Some ((event Text)\<lparr> text := JStr ''hi'', isStreaming := JBool True \<rparr>)),
         Inr (Some ((event StepComplete)\<lparr> cost := JNum 0,
            tokens := Some \<lparr> input = JNum 5, output = JNum 2, cached = JNum 0 \<rparr> \<rparr>)),
         Inr None]
   \<and> fst (OpenCode_parseEvent
          (snd (OpenCode_parseAll (OpenCode_reset OpenCodeBackend_new) (tl scenarioB)))
          (stepStart ''s1'')) = Inr (Some ((event Init)\<lparr> StandardEvent.sessionId := JStr ''s1'' \<rparr>))
   \<and> fst (OpenCode_parseEvent
          (snd (OpenCode_parseAll
             (snd (OpenCode_parseEvent
                (snd (OpenCode_parseAll (OpenCode_reset OpenCodeBackend_new) (tl scenarioB)))
                (stepStart ''s1'')))
             scenarioB))
          (stepStart ''s2'')) = Inr None
   \<and> fst (OpenCode_parseEvent
          (snd (OpenCode_parseAll
            (OpenCode_reset (snd (OpenCode_parseAll
             (snd (OpenCode_parseEvent
                (snd (OpenCode_parseAll (OpenCode_reset OpenCodeBackend_new) (tl scenarioB)))
                (stepStart ''s1'')))
             scenarioB)))
            (tl scenarioB)))
          (stepStart ''s3'')) = Inr (Some ((event Init)\<lparr> StandardEvent.sessionId := JStr ''s3'' \<rparr>))"
proof -
  have h1: "getProp (stepStart ''s1'') ''type'' = JStr ''step_start''"
    and h2: "getProp (stepStart ''s2'') ''type'' = JStr ''step_start''"
    and h3: "getProp (stepStart ''s3'') ''type'' = JStr ''step_start''"
    by (simp_all add: stepStart_def)
  have s1: "getProp (stepStart ''s1'') ''sessionID'' = JStr ''s1''"
    and s3: "getProp (stepStart ''s3'') ''sessionID'' = JStr ''s3''"
    by (simp_all add: stepStart_def)
  have p: "\<forall>e\<in>set (tl scenarioB). getProp e ''type'' \<noteq> JStr ''step_start''"
    by (simp add: scenarioB_def)
  have run: "fst (OpenCode_parseAll (OpenCode_reset OpenCodeBackend_new)
            (tl scenarioB @ [stepStart ''s1''] @ scenarioB @ [stepStart ''s2''])) =
        [Inr (Some ((event Text)\<lparr> text := JStr ''hi'', isStreaming := JBool True \<rparr>)),
         Inr (Some ((event StepComplete)\<lparr> cost := JNum 0,
            tokens := Some \<lparr> input = JNum 5, output = JNum 2, cached = JNum 0 \<rparr> \<rparr>)),
         Inr (Some ((event Init)\<lparr> StandardEvent.sessionId := JStr ''s1'' \<rparr>)),
         Inr None,
         Inr (Some ((event Text)\<lparr> text := JStr ''hi'', isStreaming := JBool True \<rparr>)),
         Inr (Some ((event StepComplete)\<lparr> cost := JNum 0,
            tokens := Some \<lparr> input = JNum 5, output = JNum 2, cached = JNum 0 \<rparr> \<rparr>)),
         Inr None]"
    by (simp add: scenarioB_def stepStart_def OpenCode_reset_def OpenCodeBackend_new_def
          OpenCode_parseEvent_def member_def OpenCode_parseStepStartEvent_def
          OpenCode_parseTextEvent_def OpenCode_parseStepFinishEvent_def optChain_def
          orElse_def event_def)
  from opencode_first_step_start_is_init [OF h1 h2 h3 p p refl refl refl refl,
        of OpenCodeBackend_new scenarioB]
  have "fst (OpenCode_parseEvent
          (snd (OpenCode_parseAll (OpenCode_reset OpenCodeBackend_new) (tl scenarioB)))
          (stepStart ''s1'')) = Inr (Some ((event Init)\<lparr> StandardEvent.sessionId := JStr ''s1'' \<rparr>))"
   and "fst (OpenCode_parseEvent
          (snd (OpenCode_parseAll
             (snd (OpenCode_parseEvent
                (snd (OpenCode_parseAll (OpenCode_reset OpenCodeBackend_new) (tl scenarioB)))
                (stepStart ''s1'')))
             scenarioB))
          (stepStart ''s2'')) = Inr None"
   and "fst (OpenCode_parseEvent
          (snd (OpenCode_parseAll
            (OpenCode_reset (snd (OpenCode_parseAll
             (snd (OpenCode_parseEvent
                (snd (OpenCode_parseAll (OpenCode_reset OpenCodeBackend_new) (tl scenarioB)))
                (stepStart ''s1'')))
             scenarioB)))
            (tl scenarioB)))
          (stepStart ''s3'')) = Inr (Some ((event Init)\<lparr> StandardEvent.sessionId := JStr ''s3'' \<rparr>))"
    by (simp_all add: s1 s3)
  with h1 h2 h3 run show ?thesis by (intro conjI)
qed

section \<open>Properties of the Claude adapter\<close>

lemma contentLoop_first:
  "\<forall>b\<in>set blocks. \<not> nullish b \<Longrightarrow>
   Claude_contentLoop blocks =
     Inr (case List.map_filter Claude_blockEvent blocks of [] \<Rightarrow> None | e # _ \<Rightarrow> Some e)"
  by (induction blocks) (auto simp: List.map_filter_simps split: option.splits)

text \<open>
  C4, as stated: every content block of an assistant message gives rise to its own event.
  It fails on a message with two text blocks: the adapter returns the event of the first
  block only, the second block is dropped.
\<close>

theorem assistant_blocks_not_all_emitted:
  "emitted (Claude_parseAssistantEvent twoTextBlocks) \<noteq> spec_demultiplexed twoTextBlocks"
  by (simp add: twoTextBlocks_def Claude_parseAssistantEvent_def spec_demultiplexed_def
        optChain_def Claude_blockEvent_def List.map_filter_simps event_def)

text \<open>
  C4, amended: an assistant event whose message content is an array of (non-null) blocks
  yields exactly one event, that of the first block in order that is a thinking or text
  block with non-empty text or a tool_use block with a name; the blocks after it yield
  nothing, and the result is null when no block qualifies.
\<close>

theorem assistant_first_block_only:
  assumes "optChain (getProp ev ''message'') ''content'' = JArr blocks"
      and "\<forall>b\<in>set blocks. \<not> nullish b"
  shows "Claude_parseAssistantEvent ev =
           Inr (case List.map_filter Claude_blockEvent blocks of [] \<Rightarrow> None | e # _ \<Rightarrow> Some e)"
  using assms by (simp add: Claude_parseAssistantEvent_def contentLoop_first)

theorem assistant_first_block_only_witness:
  "optChain (getProp twoTextBlocks ''message'') ''content'' =
      JArr [JObj [(''type'', JStr ''text''), (''text'', JStr ''a'')],
            JObj [(''type'', JStr ''text''), (''text'', JStr ''b'')]]
   \<and> Claude_parseAssistantEvent twoTextBlocks = Inr (Some ((event Text)\<lparr> text := JStr ''a'' \<rparr>))"
proof -
  have c: "optChain (getProp twoTextBlocks ''message'') ''content'' =
      JArr [JObj [(''type'', JStr ''text''), (''text'', JStr ''a'')],
            JObj [(''type'', JStr ''text''), (''text'', JStr ''b'')]]"
    by (simp add: twoTextBlocks_def optChain_def)
  have n: "\<forall>b\<in>set [JObj [(''type'', JStr ''text''), (''text'', JStr ''a'')],
                   JObj [(''type'', JStr ''text''), (''text'', JStr ''b'')]]. \<not> nullish b"
    by simp
  show ?thesis
    using assistant_first_block_only [OF c n] c
    by (simp add: Claude_blockEvent_def List.map_filter_simps)
qed

section \<open>Unrecognized events\<close>

text \<open>
  C6.  For both adapters, parseEvent applied to a decoded JSON object whose type is not one
  of the adapter's recognized event types returns null; it does not throw (and the
  OpenCode adapter's state is left as it was).
\<close>

theorem unrecognized_event_is_null:
  "(getProp (JObj kvs) ''type''
      \<notin> {JStr ''step_start'', JStr ''text'', JStr ''tool_use'', JStr ''step_finish''}
      \<longrightarrow> OpenCode_parseEvent b (JObj kvs) = (Inr None, b))
 \<and> (getProp (JObj kvs) ''type''
      \<notin> {JStr ''system'', JStr ''assistant'', JStr ''tool_use'', JStr ''result'', JStr ''stream_event''}
      \<longrightarrow> Claude_parseEvent stringify (JObj kvs) = Inr None)"
  by (simp add: OpenCode_parseEvent_def Claude_parseEvent_def member_def)

theorem unrecognized_event_is_null_witness:
  "getProp (JObj [(''type'', JStr ''heartbeat'')]) ''type''
      \<notin> {JStr ''step_start'', JStr ''text'', JStr ''tool_use'', JStr ''step_finish''}
   \<and> getProp (JObj [(''type'', JStr ''heartbeat'')]) ''type''
      \<notin> {JStr ''system'', JStr ''assistant'', JStr ''tool_use'', JStr ''result'', JStr ''stream_event''}
   \<and> OpenCode_parseEvent OpenCodeBackend_new (JObj [(''type'', JStr ''heartbeat'')])
        = (Inr None, OpenCodeBackend_new)
   \<and> Claude_parseEvent (\<lambda>v. []) (JObj [(''type'', JStr ''heartbeat'')]) = Inr None"
  using unrecognized_event_is_null [of "[(''type'', JStr ''heartbeat'')]" OpenCodeBackend_new "\<lambda>v. []"]
  by simp

section \<open>Properties of the note context manager\<close>

text \<open>
  C9.  For a key with an existing context, after clearHistory and after a second
  clearHistory the context's history, output lines and agent steps are empty; the second
  call returns normally and changes nothing any more.
\<close>

theorem clearHistory_twice:
  assumes "contexts m k = Some c"
  shows "\<exists>c1 c2.
           contexts (clearHistory m k) k = Some c1
         \<and> history c1 = [] \<and> outputLines c1 = [] \<and> agentSteps c1 = []
         \<and> contexts (clearHistory (clearHistory m k) k) k = Some c2
         \<and> history c2 = [] \<and> outputLines c2 = [] \<and> agentSteps c2 = []
         \<and> clearHistory (clearHistory m k) k = clearHistory m k"
  using assms by (simp add: clearHistory_def)

theorem clearHistory_twice_witness:
  "contexts oneNoteManager ''a.md'' = Some busyContext
   \<and> history busyContext \<noteq> []
   \<and> (\<exists>c1 c2.
           contexts (clearHistory oneNoteManager ''a.md'') ''a.md'' = Some c1
         \<and> history c1 = [] \<and> outputLines c1 = [] \<and> agentSteps c1 = []
         \<and> contexts (clearHistory (clearHistory oneNoteManager ''a.md'') ''a.md'') ''a.md'' = Some c2
         \<and> history c2 = [] \<and> outputLines c2 = [] \<and> agentSteps c2 = []
         \<and> clearHistory (clearHistory oneNoteManager ''a.md'') ''a.md''
             = clearHistory oneNoteManager ''a.md'')"
proof -
  have h: "contexts oneNoteManager ''a.md'' = Some busyContext"
    by (simp add: oneNoteManager_def)
  have "history busyContext \<noteq> []" by (simp add: busyContext_def)
  with h clearHistory_twice [OF h] show ?thesis by blast
qed

text \<open>
  C10.  clearHistory changes nothing but the history, output lines and agent steps of the
  addressed context: that context agrees with the old one on every other field (session
  id, running flag, runner, pending preview content among them), every other key maps to
  what it mapped to, the settings and data directory of the manager are the same, and for
  a key without context the manager is returned as it is, so no context is created.
\<close>

theorem clearHistory_frame:
  "(\<forall>c. contexts m k = Some c \<longrightarrow>
      (\<exists>c'. contexts (clearHistory m k) k = Some c'
          \<and> c'\<lparr> history := history c, outputLines := outputLines c, agentSteps := agentSteps c \<rparr> = c
          \<and> NoteContext.sessionId c' = NoteContext.sessionId c \<and> isRunning c' = isRunning c
          \<and> runner c' = runner c
          \<and> pendingPreviewContent c' = pendingPreviewContent c
          \<and> originalPreviewContent c' = originalPreviewContent c))
 \<and> (\<forall>k'. k' \<noteq> k \<longrightarrow> contexts (clearHistory m k) k' = contexts m k')
 \<and> dom (contexts (clearHistory m k)) = dom (contexts m)
 \<and> settings (clearHistory m k) = settings m \<and> dataDir (clearHistory m k) = dataDir m
 \<and> (contexts m k = None \<longrightarrow> clearHistory m k = m)"
  by (cases "contexts m k") (auto simp: clearHistory_def)

theorem clearHistory_frame_witness:
  "contexts oneNoteManager ''a.md'' = Some busyContext
   \<and> ''b.md'' \<noteq> ''a.md''
   \<and> contexts oneNoteManager ''b.md'' = None
   \<and> (\<exists>c'. contexts (clearHistory oneNoteManager ''a.md'') ''a.md'' = Some c'
          \<and> NoteContext.sessionId c' = Some ''s1'' \<and> isRunning c'
          \<and> pendingPreviewContent c' = Some ''draft'')
   \<and> contexts (clearHistory oneNoteManager ''a.md'') ''b.md'' = None
   \<and> clearHistory oneNoteManager ''b.md'' = oneNoteManager"
proof -
  have a: "contexts oneNoteManager ''a.md'' = Some busyContext"
    and b: "contexts oneNoteManager ''b.md'' = None"
    by (simp_all add: oneNoteManager_def)
  have f: "NoteContext.sessionId busyContext = Some ''s1''" "isRunning busyContext"
    "pendingPreviewContent busyContext = Some ''draft''"
    by (simp_all add: busyContext_def)
  have n: "''b.md'' \<noteq> ''a.md''" by simp
  note A = clearHistory_frame [of oneNoteManager "''a.md''"]
  note B = clearHistory_frame [of oneNoteManager "''b.md''"]
  from A have "\<forall>c. contexts oneNoteManager ''a.md'' = Some c \<longrightarrow>
      (\<exists>c'. contexts (clearHistory oneNoteManager ''a.md'') ''a.md'' = Some c'
          \<and> c'\<lparr> history := history c, outputLines := outputLines c, agentSteps := agentSteps c \<rparr> = c
          \<and> NoteContext.sessionId c' = NoteContext.sessionId c \<and> isRunning c' = isRunning c
          \<and> runner c' = runner c
          \<and> pendingPreviewContent c' = pendingPreviewContent c
          \<and> originalPreviewContent c' = originalPreviewContent c)"
    by (rule conjunct1)
  from this[rule_format, OF a] f
  have 1: "\<exists>c'. contexts (clearHistory oneNoteManager ''a.md'') ''a.md'' = Some c'
          \<and> NoteContext.sessionId c' = Some ''s1'' \<and> isRunning c'
          \<and> pendingPreviewContent c' = Some ''draft''"
    by (elim exE conjE) (rule exI, simp)
  from A have "\<forall>k'. k' \<noteq> ''a.md'' \<longrightarrow>
      contexts (clearHistory oneNoteManager ''a.md'') k' = contexts oneNoteManager k'"
    by (elim conjE)
  from this[rule_format, OF n] b
  have 2: "contexts (clearHistory oneNoteManager ''a.md'') ''b.md'' = None" by simp
  from B have "contexts oneNoteManager ''b.md'' = None \<longrightarrow>
      clearHistory oneNoteManager ''b.md'' = oneNoteManager"
    by (elim conjE)
  from this[rule_format, OF b] have 3: "clearHistory oneNoteManager ''b.md'' = oneNoteManager" .
  from a n b 1 2 3 show ?thesis by (intro conjI)
qed

section \<open>Properties of the file system model\<close>

lemma writeFileSync_step:
  assumes "writeFileSync es (s # t # p) c = Inr fs'"
  obtains sub sub' where "map_of es s = Some (Dir sub)"
    and "writeFileSync sub (t # p) c = Inr sub'"
    and "fs' = AList.update s (Dir sub') es"
  using assms by (auto split: option.splits node.splits sum.splits)

lemma lookupNode_write_same:
  "writeFileSync fs p c = Inr fs' \<Longrightarrow> lookupNode fs' p = Some (File c)"
proof (induction fs p c arbitrary: fs' rule: writeFileSync.induct)
  case (1 es c)
  then show ?case by simp
next
  case (2 es s c)
  then show ?case
    by (auto simp: update_conv' map_of_append map_add_def split: option.splits node.splits)
next
  case (3 es s t p c)
  from "3.prems" obtain sub sub' where a: "map_of es s = Some (Dir sub)"
    and w: "writeFileSync sub (t # p) c = Inr sub'"
    and f: "fs' = AList.update s (Dir sub') es"
    by (rule writeFileSync_step)
  have "lookupNode sub' (t # p) = Some (File c)" by (rule "3.IH"[OF a refl w])
  then show ?case unfolding f by (simp add: update_conv')
qed

lemma isDirectory_write_parent:
  "writeFileSync fs p c = Inr fs' \<Longrightarrow> p \<noteq> [] \<Longrightarrow> isDirectory fs' (butlast p)"
proof (induction fs p c arbitrary: fs' rule: writeFileSync.induct)
  case (1 es c)
  then show ?case by simp
next
  case (2 es s c)
  then show ?case by (simp add: isDirectory_def)
next
  case (3 es s t p c)
  from "3.prems"(1) obtain sub sub' where a: "map_of es s = Some (Dir sub)"
    and w: "writeFileSync sub (t # p) c = Inr sub'"
    and f: "fs' = AList.update s (Dir sub') es"
    by (rule writeFileSync_step)
  have "isDirectory sub' (butlast (t # p))" by (rule "3.IH"[OF a refl w]) simp
  then show ?case unfolding f by (simp add: isDirectory_def update_conv')
qed

lemma writeFileSync_succeeds:
  "isDirectory fs d \<Longrightarrow> \<not> isDirectory fs (d @ [f]) \<Longrightarrow> \<exists>fs'. writeFileSync fs (d @ [f]) c = Inr fs'"
proof (induction d arbitrary: fs)
  case Nil
  then show ?case by (auto simp: isDirectory_def split: option.splits node.splits)
next
  case (Cons s d)
  from Cons.prems(1) obtain sub where sub: "map_of fs s = Some (Dir sub)" and d: "isDirectory sub d"
    by (auto simp: isDirectory_def split: option.splits node.splits if_splits)
  from Cons.prems(2) sub have "\<not> isDirectory sub (d @ [f])"
    by (simp add: isDirectory_def)
  from Cons.IH[OF d this] obtain sub' where w: "writeFileSync sub (d @ [f]) c = Inr sub'" by blast
  obtain t p where tp: "d @ [f] = t # p" by (cases "d @ [f]") auto
  show ?case using sub w by (simp add: tp)
qed

lemma lookupNode_parent:
  "lookupNode fs (p @ [s, t]) = Some x \<Longrightarrow>
     \<exists>sub. lookupNode fs p = Some (Dir sub) \<and> s \<in> fst ` set sub"
proof (induction p arbitrary: fs)
  case Nil
  then show ?case
    by (auto split: option.splits node.splits if_splits dest!: map_of_SomeD intro!: image_eqI[where f = fst])
next
  case (Cons a p)
  then show ?case by (auto split: option.splits node.splits if_splits)
qed

section \<open>Properties of the conversation history\<close>

lemma slice_last_short: "length xs \<le> n \<Longrightarrow> slice_last n xs = xs"
  by (simp add: slice_last_def)

lemma length_slice_last: "length (slice_last n xs) \<le> n"
  by (simp add: slice_last_def)

lemma slice_last_append: "slice_last n (slice_last n xs @ ys) = slice_last n (xs @ ys)"
  by (cases "length xs \<le> n") (auto simp: slice_last_def add.commute)

lemma load_stored:
  "lookupNode fs (sessionDir @ [''conversation_history.json'']) = Some (File (JsonText (HistoryJson h)))
   \<Longrightarrow> loadConversationHistory fs sessionDir = HistoryJson h"
  by (simp add: loadConversationHistory_def existsSync_def readFileSync_def JSON_parse_def)

lemma load_ready:
  "historyReady fs sessionDir \<Longrightarrow> \<exists>h. loadConversationHistory fs sessionDir = HistoryJson h"
  by (auto simp: historyReady_def loadConversationHistory_def existsSync_def readFileSync_def
        JSON_parse_def split: option.splits node.splits fileContent.splits json.splits)

lemma save_one:
  assumes "historyReady fs sessionDir"
      and "loadConversationHistory fs sessionDir = HistoryJson h"
  shows "\<exists>fs'. saveConversationHistory now1 now2 fs sessionDir u a = Inr fs'
           \<and> historyReady fs' sessionDir
           \<and> loadConversationHistory fs' sessionDir =
               HistoryJson (slice_last 20 (h @ [userMessage now1 u, assistantMessage_of now2 a]))"
proof -
  let ?f = "sessionDir @ [''conversation_history.json'']"
  let ?h2 = "h @ [userMessage now1 u, assistantMessage_of now2 a]"
  have dir: "isDirectory fs sessionDir" using assms(1) by (simp add: historyReady_def)
  have nd: "\<not> isDirectory fs ?f"
    using assms(1) by (auto simp: historyReady_def isDirectory_def split: option.splits node.splits)
  have ne: "?f \<noteq> []" by simp
  have sv: "saveConversationHistory now1 now2 fs sessionDir u a =
              writeFileSync fs ?f (JsonText (HistoryJson (slice_last 20 ?h2)))"
    using assms
    by (auto simp: saveConversationHistory_def loadConversationHistory_def historyReady_def
        existsSync_def readFileSync_def JSON_parse_def Let_def slice_last_short
        split: option.splits node.splits fileContent.splits json.splits)
  obtain fs' where w: "writeFileSync fs ?f (JsonText (HistoryJson (slice_last 20 ?h2))) = Inr fs'"
    using writeFileSync_succeeds[OF dir nd] by blast
  have l: "lookupNode fs' ?f = Some (File (JsonText (HistoryJson (slice_last 20 ?h2))))"
    by (rule lookupNode_write_same[OF w])
  have d: "isDirectory fs' sessionDir"
    using isDirectory_write_parent[OF w ne] by simp
  have r: "historyReady fs' sessionDir"
    using d l by (simp add: historyReady_def)
  have "loadConversationHistory fs' sessionDir = HistoryJson (slice_last 20 ?h2)"
    using l by (rule load_stored)
  with sv w r show ?thesis by simp
qed

lemma save_all:
  assumes "historyReady fs sessionDir"
      and "loadConversationHistory fs sessionDir = HistoryJson h"
  shows "\<exists>fs'. saveAll fs sessionDir calls = Inr fs'
           \<and> (calls \<noteq> [] \<longrightarrow> loadConversationHistory fs' sessionDir =
               HistoryJson (slice_last 20 (h @ exchanges calls)))"
  using assms
proof (induction calls arbitrary: fs h)
  case Nil
  then show ?case by simp
next
  case (Cons call calls)
  obtain now1 now2 u a where call: "call = (now1, now2, u, a)" by (cases call) auto
  let ?h1 = "slice_last 20 (h @ [userMessage now1 u, assistantMessage_of now2 a])"
  from save_one[OF Cons.prems, of now1 now2 u a]
  obtain fs1 where s1: "saveConversationHistory now1 now2 fs sessionDir u a = Inr fs1"
    and r1: "historyReady fs1 sessionDir"
    and h1: "loadConversationHistory fs1 sessionDir = HistoryJson ?h1"
    by blast
  from Cons.IH[OF r1 h1]
  obtain fs' where sa: "saveAll fs1 sessionDir calls = Inr fs'"
    and ha: "calls \<noteq> [] \<longrightarrow> loadConversationHistory fs' sessionDir =
               HistoryJson (slice_last 20 (?h1 @ exchanges calls))"
    by blast
  have all: "saveAll fs sessionDir (call # calls) = Inr fs'"
    by (simp add: call s1 sa)
  show ?case
  proof (cases "calls = []")
    case True
    then have "fs' = fs1" using sa by simp
    with True h1 all show ?thesis by (simp add: call)
  next
    case False
    with ha have "loadConversationHistory fs' sessionDir =
               HistoryJson (slice_last 20 (?h1 @ exchanges calls))"
      by simp
    also have "slice_last 20 (?h1 @ exchanges calls) =
                 slice_last 20 ((h @ [userMessage now1 u, assistantMessage_of now2 a]) @ exchanges calls)"
      by (simp only: slice_last_append)
    finally show ?thesis using all by (simp add: call)
  qed
qed

text \<open>
  C8.  In a session directory whose history file is missing or holds a history, the
  persisted history is an array, and every call of saveConversationHistory succeeds and
  leaves as persisted history the old one with exactly the user message and the assistant
  message appended, cut to its last 20 messages; so after any non-empty sequence of calls
  the persisted history is the last 20 messages of the old history followed by all
  exchanges, and never longer than 20.
\<close>

theorem conversation_history_rolling:
  assumes "historyReady fs sessionDir"
  shows "\<exists>h. loadConversationHistory fs sessionDir = HistoryJson h
       \<and> (\<exists>fs1. saveConversationHistory now1 now2 fs sessionDir u a = Inr fs1
            \<and> loadConversationHistory fs1 sessionDir =
                HistoryJson (slice_last 20 (h @ [userMessage now1 u, assistantMessage_of now2 a]))
            \<and> length (slice_last 20 (h @ [userMessage now1 u, assistantMessage_of now2 a])) \<le> 20)
       \<and> (\<exists>fs'. saveAll fs sessionDir calls = Inr fs'
            \<and> (calls \<noteq> [] \<longrightarrow>
                  loadConversationHistory fs' sessionDir =
                    HistoryJson (slice_last 20 (h @ exchanges calls))
                \<and> length (slice_last 20 (h @ exchanges calls)) \<le> 20))"
proof -
  from load_ready[OF assms] obtain h where h: "loadConversationHistory fs sessionDir = HistoryJson h"
    by blast
  from save_one[OF assms h, of now1 now2 u a]
  have one: "\<exists>fs1. saveConversationHistory now1 now2 fs sessionDir u a = Inr fs1
            \<and> loadConversationHistory fs1 sessionDir =
                HistoryJson (slice_last 20 (h @ [userMessage now1 u, assistantMessage_of now2 a]))
            \<and> length (slice_last 20 (h @ [userMessage now1 u, assistantMessage_of now2 a])) \<le> 20"
    by (auto simp: length_slice_last)
  from save_all[OF assms h, of calls]
  have many: "\<exists>fs'. saveAll fs sessionDir calls = Inr fs'
            \<and> (calls \<noteq> [] \<longrightarrow>
                  loadConversationHistory fs' sessionDir =
                    HistoryJson (slice_last 20 (h @ exchanges calls))
                \<and> length (slice_last 20 (h @ exchanges calls)) \<le> 20)"
    by (auto simp: length_slice_last)
  from h one many show ?thesis by blast
qed

theorem conversation_history_rolling_witness:
  "historyReady sessionFs [''vault'', ''s1'']
   \<and> [(''t1'', ''t2'', ''q1'', ''r1''), (''t3'', ''t4'', ''q2'', ''r2'')] \<noteq> []
   \<and> loadConversationHistory sessionFs [''vault'', ''s1''] = HistoryJson (replicate 19 oldMessage)
   \<and> (\<exists>fs1. saveConversationHistory ''t1'' ''t2'' sessionFs [''vault'', ''s1''] ''q1'' ''r1'' = Inr fs1
          \<and> loadConversationHistory fs1 [''vault'', ''s1''] =
                HistoryJson (replicate 18 oldMessage
                  @ [userMessage ''t1'' ''q1'', assistantMessage_of ''t2'' ''r1'']))
   \<and> (\<exists>fs'. saveAll sessionFs [''vault'', ''s1'']
                 [(''t1'', ''t2'', ''q1'', ''r1''), (''t3'', ''t4'', ''q2'', ''r2'')] = Inr fs'
          \<and> loadConversationHistory fs' [''vault'', ''s1''] =
                HistoryJson (replicate 16 oldMessage
                  @ [userMessage ''t1'' ''q1'', assistantMessage_of ''t2'' ''r1'',
                     userMessage ''t3'' ''q2'', assistantMessage_of ''t4'' ''r2'']))"
proof -
  have r: "historyReady sessionFs [''vault'', ''s1'']"
    by (simp add: historyReady_def sessionFs_def isDirectory_def)
  have l: "loadConversationHistory sessionFs [''vault'', ''s1''] = HistoryJson (replicate 19 oldMessage)"
    by (rule load_stored) (simp add: sessionFs_def)
  have s1: "slice_last 20 (replicate 19 oldMessage
               @ [userMessage ''t1'' ''q1'', assistantMessage_of ''t2'' ''r1''])
            = replicate 18 oldMessage @ [userMessage ''t1'' ''q1'', assistantMessage_of ''t2'' ''r1'']"
    by (simp add: slice_last_def)
  have s2: "slice_last 20 (replicate 19 oldMessage
               @ exchanges [(''t1'', ''t2'', ''q1'', ''r1''), (''t3'', ''t4'', ''q2'', ''r2'')])
            = replicate 16 oldMessage
                  @ [userMessage ''t1'' ''q1'', assistantMessage_of ''t2'' ''r1'',
                     userMessage ''t3'' ''q2'', assistantMessage_of ''t4'' ''r2'']"
    by (simp add: slice_last_def)
  have n: "[(''t1'', ''t2'', ''q1'', ''r1''), (''t3'', ''t4'', ''q2'', ''r2'')] \<noteq> []" by simp
  from conversation_history_rolling [OF r, of "''t1''" "''t2''" "''q1''" "''r1''"
      "[(''t1'', ''t2'', ''q1'', ''r1''), (''t3'', ''t4'', ''q2'', ''r2'')]"]
  obtain h where h: "HistoryJson (replicate 19 oldMessage) = HistoryJson h"
    and one: "\<exists>fs1. saveConversationHistory ''t1'' ''t2'' sessionFs [''vault'', ''s1''] ''q1'' ''r1'' = Inr fs1
          \<and> loadConversationHistory fs1 [''vault'', ''s1''] =
              HistoryJson (slice_last 20 (h @ [userMessage ''t1'' ''q1'', assistantMessage_of ''t2'' ''r1'']))"
    and many: "\<exists>fs'. saveAll sessionFs [''vault'', ''s1'']
                 [(''t1'', ''t2'', ''q1'', ''r1''), (''t3'', ''t4'', ''q2'', ''r2'')] = Inr fs'
          \<and> loadConversationHistory fs' [''vault'', ''s1''] =
              HistoryJson (slice_last 20 (h @ exchanges
                 [(''t1'', ''t2'', ''q1'', ''r1''), (''t3'', ''t4'', ''q2'', ''r2'')]))"
    unfolding l using n by blast
  from h have "h = replicate 19 oldMessage" by simp
  with one many show ?thesis
    unfolding s1 s2 using r n l by (simp only: s1 s2) blast
qed

section \<open>Properties of saving and loading contexts\<close>

lemma loadEntry_other:
  "storedNotePath fs dir h \<noteq> Some k \<Longrightarrow> contexts (loadEntry fs dir m h) k = contexts m k"
  by (auto simp: loadEntry_def storedNotePath_def existsSync_def readFileSync_def Let_def
      split: sum.splits fileContent.splits json.splits option.splits node.splits)

lemma loadEntry_stored:
  assumes "lookupNode fs (dir @ [h, ''context.json'']) = Some (File (JsonText (ContextJson d)))"
      and "sd_notePath d = Some k" and "k \<noteq> []"
  shows "contexts (loadEntry fs dir m h) k = Some (reconstruct m d)"
  using assms by (simp add: loadEntry_def existsSync_def readFileSync_def)

lemma foldl_loadEntry:
  assumes d: "lookupNode fs (dir @ [h0, ''context.json'']) = Some (File (JsonText (ContextJson d)))"
      and k: "sd_notePath d = Some k" "k \<noteq> []"
      and others: "\<forall>h. h \<noteq> h0 \<longrightarrow> storedNotePath fs dir h \<noteq> Some k"
  shows "h0 \<in> set names \<Longrightarrow>
         \<exists>m'. contexts (foldl (loadEntry fs dir) m names) k = Some (reconstruct m' d)"
proof (induction names rule: rev_induct)
  case Nil
  then show ?case by simp
next
  case (snoc h names)
  show ?case
  proof (cases "h = h0")
    case True
    then show ?thesis using loadEntry_stored[OF d k] by auto
  next
    case False
    with snoc.prems have "h0 \<in> set names" by simp
    from snoc.IH[OF this] obtain m' where
      "contexts (foldl (loadEntry fs dir) m names) k = Some (reconstruct m' d)" by blast
    moreover from False others have "storedNotePath fs dir h \<noteq> Some k" by blast
    ultimately show ?thesis by (auto simp: loadEntry_other)
  qed
qed

lemma saveContext_writes:
  assumes "contexts m k = Some c"
      and "saveContext md5 now m k vault fs = Inr fs'"
  shows "lookupNode fs' (vault @ dataDir m @ [md5 k, ''context.json'']) =
           Some (File (JsonText (ContextJson
             \<lparr> sd_history = Some (history c), sd_sessionId = NoteContext.sessionId c,
               sd_outputLines = Some (outputLines c), sd_agentSteps = Some (agentSteps c),
               sd_notePath = Some k,
               sd_pendingPreviewContent = pendingPreviewContent c,
               sd_originalPreviewContent = originalPreviewContent c,
               sd_savedAt = Some now \<rparr>)))"
  using assms
  by (auto simp: saveContext_def Let_def split: sum.splits if_splits dest: lookupNode_write_same)

text \<open>
  Loading never stores a context under the empty key, whatever the files hold: a fresh
  manager has none under it after any load that returns.
\<close>

lemma loadEntry_empty_key: "contexts (loadEntry fs dir m h) [] = contexts m []"
  by (auto simp: loadEntry_def Let_def
      split: sum.splits fileContent.splits json.splits option.splits)

lemma foldl_loadEntry_empty_key:
  "contexts (foldl (loadEntry fs dir) m names) [] = contexts m []"
  by (induction names rule: rev_induct) (simp_all add: loadEntry_empty_key)

lemma loadContexts_empty_key:
  "loadContexts m vault fs = Inr m' \<Longrightarrow> contexts m' [] = contexts m []"
  by (auto simp: loadContexts_def Let_def foldl_loadEntry_empty_key
      split: if_splits sum.splits)

text \<open>
  C5, as stated: every saved context is reproduced by a subsequent load.  It fails for the
  context under the empty key (the view's key while no note is open): saveContext writes
  it, and loadContexts skips the document because its notePath is the empty string, so a
  fresh manager has no context under that key afterwards.
\<close>

theorem roundtrip_loses_empty_key:
  "contexts emptyKeyManager '''' = Some busyContext
   \<and> saveContext exampleDigest ''now'' emptyKeyManager '''' [''vault''] vaultFs = Inr emptyKeyFs
   \<and> loadContexts newManager [''vault''] emptyKeyFs = Inr newManager
   \<and> contexts newManager '''' = None"
  by (simp add: emptyKeyManager_def newManager_def saveContext_def vaultFs_def emptyKeyFs_def
        exampleDigest_def savedDocument_def existsSync_def loadContexts_def readdirSync_def
        loadEntry_def readFileSync_def)

text \<open>
  C5, amended: for every context saved under a non-empty key, a subsequent loadContexts
  from the same root (by any manager with the same data directory, no other entry of the
  contexts directory naming that key) succeeds and holds a context under the key with
  the same history length, the same number of output lines and the same session id.
\<close>

theorem save_load_roundtrip:
  assumes c: "contexts m k = Some c"
      and k: "k \<noteq> []"
      and saved: "saveContext md5 now m k vault fs = Inr fs'"
      and dd: "dataDir m2 = dataDir m"
      and others: "\<forall>h. h \<noteq> md5 k \<longrightarrow> storedNotePath fs' (vault @ dataDir m) h \<noteq> Some k"
  shows "\<exists>m' c'. loadContexts m2 vault fs' = Inr m' \<and> contexts m' k = Some c'
           \<and> length (history c') = length (history c)
           \<and> length (outputLines c') = length (outputLines c)
           \<and> NoteContext.sessionId c' = NoteContext.sessionId c"
proof -
  let ?dir = "vault @ dataDir m"
  let ?d = "\<lparr> sd_history = Some (history c), sd_sessionId = NoteContext.sessionId c,
               sd_outputLines = Some (outputLines c), sd_agentSteps = Some (agentSteps c),
               sd_notePath = Some k,
               sd_pendingPreviewContent = pendingPreviewContent c,
               sd_originalPreviewContent = originalPreviewContent c,
               sd_savedAt = Some now \<rparr>"
  have w: "lookupNode fs' (?dir @ [md5 k, ''context.json'']) = Some (File (JsonText (ContextJson ?d)))"
    using saveContext_writes[OF c saved] by simp
  from lookupNode_parent[OF w] obtain sub where
    sub: "lookupNode fs' ?dir = Some (Dir sub)" and h: "md5 k \<in> fst ` set sub" by blast
  have names: "readdirSync fs' ?dir = Inr (remdups (map fst sub))"
    by (simp add: readdirSync_def sub)
  have ex: "existsSync fs' ?dir" by (simp add: existsSync_def sub)
  have l: "loadContexts m2 vault fs' = Inr (foldl (loadEntry fs' ?dir) m2 (remdups (map fst sub)))"
    by (simp add: loadContexts_def dd ex names)
  have "md5 k \<in> set (remdups (map fst sub))" using h by simp
  from foldl_loadEntry[OF w _ k others this, of m2]
  obtain m1 where "contexts (foldl (loadEntry fs' ?dir) m2 (remdups (map fst sub))) k
      = Some (reconstruct m1 ?d)" by auto
  with l show ?thesis by (simp add: reconstruct_def)
qed

theorem save_load_roundtrip_witness:
  "contexts twoNotesManager ''a.md'' = Some busyContext
   \<and> ''a.md'' \<noteq> []
   \<and> saveContext exampleDigest ''now'' twoNotesManager ''a.md'' [''vault''] oneNoteFs = Inr twoNotesFs
   \<and> dataDir newManager = dataDir twoNotesManager
   \<and> storedNotePath twoNotesFs ([''vault''] @ dataDir twoNotesManager) (exampleDigest ''b.md'')
         = Some ''b.md''
   \<and> (\<exists>m' c'. loadContexts newManager [''vault''] twoNotesFs = Inr m'
          \<and> contexts m' ''a.md'' = Some c'
          \<and> length (history c') = 1 \<and> length (outputLines c') = 2
          \<and> NoteContext.sessionId c' = Some ''s1'')"
proof -
  have c: "contexts twoNotesManager ''a.md'' = Some busyContext"
    by (simp add: twoNotesManager_def)
  have k: "''a.md'' \<noteq> []" by simp
  have saved: "saveContext exampleDigest ''now'' twoNotesManager ''a.md'' [''vault''] oneNoteFs
                 = Inr twoNotesFs"
    by (simp add: twoNotesManager_def newManager_def saveContext_def oneNoteFs_def twoNotesFs_def
          exampleDigest_def savedDocument_def existsSync_def)
  have dd: "dataDir newManager = dataDir twoNotesManager"
    by (simp add: twoNotesManager_def)
  have others: "\<forall>h. h \<noteq> exampleDigest ''a.md'' \<longrightarrow>
          storedNotePath twoNotesFs ([''vault''] @ dataDir twoNotesManager) h \<noteq> Some ''a.md''"
    by (simp add: storedNotePath_def twoNotesFs_def twoNotesManager_def newManager_def
          exampleDigest_def savedDocument_def)
  have f: "length (history busyContext) = 1" "length (outputLines busyContext) = 2"
    "NoteContext.sessionId busyContext = Some ''s1''"
    by (simp_all add: busyContext_def)
  from save_load_roundtrip [OF c k saved dd others]
  have "\<exists>m' c'. loadContexts newManager [''vault''] twoNotesFs = Inr m'
          \<and> contexts m' ''a.md'' = Some c'
          \<and> length (history c') = 1 \<and> length (outputLines c') = 2
          \<and> NoteContext.sessionId c' = Some ''s1''"
    unfolding f .
  moreover have "storedNotePath twoNotesFs ([''vault''] @ dataDir twoNotesManager)
      (exampleDigest ''b.md'') = Some ''b.md''"
    by (simp add: storedNotePath_def twoNotesFs_def twoNotesManager_def newManager_def
          exampleDigest_def savedDocument_def)
  ultimately show ?thesis using c k saved dd by (intro conjI)
qed

section \<open>Properties of the process spawner\<close>

text \<open>
  C7.  On Windows, and whenever running the login shell throws (it fails or exceeds its
  timeout), getShellEnvironment returns the host process's own environment, and spawn goes
  on to create the child process from it: the command is resolved against that
  environment with the custom variables merged in, and the child's environment is the
  same with the UTF-8 settings added.
\<close>

theorem shell_environment_fallback:
  assumes "isWindows host \<or> (\<exists>e. execSync host (fst (shellProbe host)) (snd (shellProbe host)) = Inl e)"
  shows "getShellEnvironment host = processEnv host
       \<and> spawn host config =
           (let shellEnv = (case customEnvVars config of
                              Some vars \<Rightarrow> mergeCustomEnvVars (processEnv host) vars
                            | None \<Rightarrow> processEnv host)
            in \<lparr> spawn_command = resolveClaudePath host shellEnv (claudePath config),
                 spawn_args = args config, spawn_cwd = workingDir config,
                 spawn_env = envWithUtf8 shellEnv, spawn_shell = getDefaultShell host \<rparr>)"
proof -
  have "getShellEnvironment host = processEnv host"
    using assms by (auto simp: getShellEnvironment_def)
  then show ?thesis by (simp add: spawn_def Let_def)
qed

theorem shell_environment_fallback_witness:
  "execSync slowShellHost (fst (shellProbe slowShellHost)) (snd (shellProbe slowShellHost)) = Inl ETIMEDOUT
   \<and> timeout (snd (shellProbe slowShellHost)) = 5000
   \<and> fst (shellProbe slowShellHost) = ''/bin/zsh -c '' @ singleQuoted
        ''source ~/.zshenv 2>/dev/null; source ~/.zprofile 2>/dev/null; source ~/.zshrc 2>/dev/null; env''
   \<and> getShellEnvironment slowShellHost = processEnv slowShellHost
   \<and> spawn_command (spawn slowShellHost claudeConfig) = ''/usr/bin/claude''
   \<and> spawn_env (spawn slowShellHost claudeConfig) ''PATH'' = Some ''/usr/bin''
   \<and> spawn_env (spawn slowShellHost claudeConfig) ''ANTHROPIC_MODEL'' = Some ''opus''
   \<and> spawn_env (spawn slowShellHost claudeConfig) ''LANG'' = Some ''en_US.UTF-8''
   \<and> isWindows windowsHost
   \<and> getShellEnvironment windowsHost = processEnv windowsHost
   \<and> spawn_command (spawn windowsHost claudeConfig) = ''claude''
   \<and> spawn_shell (spawn windowsHost claudeConfig) = ''cmd.exe''
   \<and> spawn_env (spawn windowsHost claudeConfig) ''PATH'' = Some ''C:/bin''"
proof -
  have t: "execSync slowShellHost (fst (shellProbe slowShellHost)) (snd (shellProbe slowShellHost))
             = Inl ETIMEDOUT"
    by (simp add: slowShellHost_def)
  have p: "timeout (snd (shellProbe slowShellHost)) = 5000"
    "fst (shellProbe slowShellHost) = ''/bin/zsh -c '' @ singleQuoted
        ''source ~/.zshenv 2>/dev/null; source ~/.zprofile 2>/dev/null; source ~/.zshrc 2>/dev/null; env''"
    by (simp_all add: shellProbe_def slowShellHost_def envOr_def getShellName_def sourceCommand_def)
  have w: "isWindows windowsHost" by (simp add: isWindows_def windowsHost_def)
  have a: "isWindows slowShellHost \<or>
      (\<exists>e. execSync slowShellHost (fst (shellProbe slowShellHost)) (snd (shellProbe slowShellHost)) = Inl e)"
    using t by blast
  have b: "isWindows windowsHost \<or>
      (\<exists>e. execSync windowsHost (fst (shellProbe windowsHost)) (snd (shellProbe windowsHost)) = Inl e)"
    using w by blast
  note A = shell_environment_fallback [OF a, of claudeConfig]
  note B = shell_environment_fallback [OF b, of claudeConfig]
  have A1: "getShellEnvironment slowShellHost = processEnv slowShellHost" using A by (rule conjunct1)
  have B1: "getShellEnvironment windowsHost = processEnv windowsHost" using B by (rule conjunct1)
  have A2: "spawn_command (spawn slowShellHost claudeConfig) = ''/usr/bin/claude''"
    "spawn_env (spawn slowShellHost claudeConfig) ''PATH'' = Some ''/usr/bin''"
    "spawn_env (spawn slowShellHost claudeConfig) ''ANTHROPIC_MODEL'' = Some ''opus''"
    "spawn_env (spawn slowShellHost claudeConfig) ''LANG'' = Some ''en_US.UTF-8''"
    unfolding A [THEN conjunct2]
    by (simp_all add: claudeConfig_def slowShellHost_def resolveClaudePath_def envWithUtf8_def
          envOr_def isWindows_def getPathSeparator_def setEnv_def)
  have B2: "spawn_command (spawn windowsHost claudeConfig) = ''claude''"
    "spawn_shell (spawn windowsHost claudeConfig) = ''cmd.exe''"
    "spawn_env (spawn windowsHost claudeConfig) ''PATH'' = Some ''C:/bin''"
    unfolding B [THEN conjunct2]
    by (simp_all add: claudeConfig_def windowsHost_def resolveClaudePath_def envWithUtf8_def
          envOr_def isWindows_def getPathSeparator_def setEnv_def getDefaultShell_def)
  from t p A1 A2 w B1 B2 show ?thesis by (intro conjI)
qed

section \<open>Properties of the run request\<close>

lemma getContext_existing: "contexts m k = Some c \<Longrightarrow> getContext m k = (c, m)"
  by (simp add: getContext_def)

lemma context_getContext:
  "fst (getContext (snd (getContext m k)) k') = fst (getContext m k')"
  by (simp add: getContext_def createNewContext_def split: option.splits)

lemma context_assign:
  "fst (getContext (contextManager (assign k f v)) k') =
     (if k' = k then f (fst (getContext (contextManager v) k))
      else fst (getContext (contextManager v) k'))"
  by (simp add: assign_def onContext_def getContext_def createNewContext_def
        split: option.splits)

lemma context_updateCurrentNoteLabel:
  "fst (getContext (contextManager (updateCurrentNoteLabel v)) k) =
     fst (getContext (contextManager v) k)"
  by (simp add: updateCurrentNoteLabel_def Let_def context_getContext)

lemma context_runnerRun:
  "contextManager (runnerRun k req v) = contextManager v"
  by (simp add: runnerRun_def)

lemma frame_assign:
  "started (assign k f v) = started v"
  "notices (assign k f v) = notices v"
  "currentNotePath (assign k f v) = currentNotePath v"
  "activeStandaloneSession (assign k f v) = activeStandaloneSession v"
  "permissionApprovalShown (assign k f v) = permissionApprovalShown v"
  "modelSelect (assign k f v) = modelSelect v"
  "conversationalModeCheckbox (assign k f v) = conversationalModeCheckbox v"
  by (simp_all add: assign_def)

lemma frame_updateCurrentNoteLabel:
  "started (updateCurrentNoteLabel v) = started v"
  "notices (updateCurrentNoteLabel v) = notices v"
  "currentNotePath (updateCurrentNoteLabel v) = currentNotePath v"
  "activeStandaloneSession (updateCurrentNoteLabel v) = activeStandaloneSession v"
  "permissionApprovalShown (updateCurrentNoteLabel v) = permissionApprovalShown v"
  "modelSelect (updateCurrentNoteLabel v) = modelSelect v"
  "conversationalModeCheckbox (updateCurrentNoteLabel v) = conversationalModeCheckbox v"
  by (simp_all add: updateCurrentNoteLabel_def Let_def)

lemma frame_prepareRun:
  "started (prepareRun app k p req v) = started v"
  "notices (prepareRun app k p req v) = notices v"
  "currentNotePath (prepareRun app k p req v) = currentNotePath v"
  "activeStandaloneSession (prepareRun app k p req v) = activeStandaloneSession v"
  "permissionApprovalShown (prepareRun app k p req v) = permissionApprovalShown v"
  "modelSelect (prepareRun app k p req v) = modelSelect v"
  "conversationalModeCheckbox (prepareRun app k p req v) = conversationalModeCheckbox v"
  by (simp_all add: prepareRun_def hidePreview_def showLastPrompt_def
        startElapsedTimeTracking_def frame_assign)

lemma frame_launch:
  "started (launch k req v) = started v @ [(k, req)]"
  "notices (launch k req v) = notices v"
  "currentNotePath (launch k req v) = currentNotePath v"
  "activeStandaloneSession (launch k req v) = activeStandaloneSession v"
  "permissionApprovalShown (launch k req v) = permissionApprovalShown v"
  "modelSelect (launch k req v) = modelSelect v"
  "conversationalModeCheckbox (launch k req v) = conversationalModeCheckbox v"
  by (simp_all add: launch_def runnerRun_def frame_updateCurrentNoteLabel frame_assign)

lemma running_prepareRun:
  "isRunning (fst (getContext (contextManager (prepareRun app k0 p req v)) k)) =
     isRunning (fst (getContext (contextManager v) k))"
  by (simp add: prepareRun_def hidePreview_def showLastPrompt_def
        startElapsedTimeTracking_def frame_assign context_assign)

lemma request_prepareRun:
  "currentRequest (fst (getContext (contextManager (prepareRun app k0 p req v)) k0)) = Some req"
  by (simp add: prepareRun_def hidePreview_def showLastPrompt_def
        startElapsedTimeTracking_def frame_assign context_assign)

lemma running_launch:
  "isRunning (fst (getContext (contextManager (launch k0 req v)) k)) =
     (k = k0 \<or> isRunning (fst (getContext (contextManager v) k)))"
  by (simp add: launch_def context_runnerRun context_updateCurrentNoteLabel context_assign)

lemma request_launch:
  "currentRequest (fst (getContext (contextManager (launch k0 req v)) k)) =
     currentRequest (fst (getContext (contextManager v) k))"
  by (simp add: launch_def context_runnerRun context_updateCurrentNoteLabel context_assign)

lemma startRun_launches:
  assumes "(sa \<and> truthy (activeStandaloneSession v)) \<or> file = None
           \<or> (\<exists>d. getSessionInfo app = Inr d)"
  shows "startRun app k0 p file noteContent selectedText sa v =
           (None, launch k0 (prepareRequest app p file noteContent selectedText sa v)
                    (prepareRun app k0 p (prepareRequest app p file noteContent selectedText sa v) v))"
  using assms
  by (auto simp: startRun_def Let_def frame_prepareRun split: option.splits sum.splits)

lemma handleRun_rejects:
  assumes "isRunning (fst (getContext (contextManager v) (currentNotePath v)))"
  shows "handleRunClaudeCode app v =
           (None, v\<lparr> contextManager := snd (getContext (contextManager v) (currentNotePath v)),
                     notices := notices v @ [''notice.alreadyProcessing''] \<rparr>)"
  using assms
  by (cases "getContext (contextManager v) (currentNotePath v)")
     (simp add: handleRunClaudeCode_def Let_def)

lemma handleRun_standalone_first:
  assumes "\<not> isRunning (fst (getContext (contextManager v) (currentNotePath v)))"
      and "trim (promptInput v) \<noteq> []" and "getBasePath app \<noteq> []"
      and "\<not> truthy (activeStandaloneSession v)" and "getActiveFile app = None"
      and "createStandaloneSession app = Inr d"
  shows "handleRunClaudeCode app v =
           startRun app (currentNotePath v) (trim (promptInput v)) None None None True
             (updateCurrentNoteLabel
                (v\<lparr> contextManager := snd (getContext (contextManager v) (currentNotePath v)),
                    promptInput := [], activeStandaloneSession := Some d,
                    currentNotePath := ''standalone:'' @ d \<rparr>))"
  using assms
  by (cases "getContext (contextManager v) (currentNotePath v)")
     (simp add: handleRunClaudeCode_def Let_def)

lemma handleRun_standalone_next:
  assumes "\<not> isRunning (fst (getContext (contextManager v) (currentNotePath v)))"
      and "trim (promptInput v) \<noteq> []" and "getBasePath app \<noteq> []"
      and "truthy (activeStandaloneSession v)"
  shows "handleRunClaudeCode app v =
           startRun app (currentNotePath v) (trim (promptInput v)) None None None True
             (v\<lparr> contextManager := snd (getContext (contextManager v) (currentNotePath v)),
                 promptInput := [] \<rparr>)"
  using assms
  by (cases "getContext (contextManager v) (currentNotePath v)")
     (simp add: handleRunClaudeCode_def Let_def)

lemma handleRun_note:
  assumes "\<not> isRunning (fst (getContext (contextManager v) (currentNotePath v)))"
      and "trim (promptInput v) \<noteq> []" and "getBasePath app \<noteq> []"
      and "\<not> truthy (activeStandaloneSession v)" and "getActiveFile app = Some filePath"
      and "findActiveView (markdownLeaves app) filePath = Some activeView"
      and "editor activeView = Some ed"
  shows "handleRunClaudeCode app v =
           startRun app (currentNotePath v) (trim (promptInput v)) (Some filePath)
             (Some (getValue ed))
             (if selectedTextOnlyCheckbox v \<and> getSelection ed \<noteq> [] then Some (getSelection ed)
              else None)
             False
             (v\<lparr> contextManager := snd (getContext (contextManager v) (currentNotePath v)),
                 promptInput := [] \<rparr>)"
  using assms
  by (cases "getContext (contextManager v) (currentNotePath v)")
     (simp add: handleRunClaudeCode_def Let_def)

lemma handleApprove_runs:
  assumes "currentRequest (fst (getContext (contextManager v) (currentNotePath v))) = Some pending"
      and "getActiveFile app = Some filePath"
      and "findLeaf (markdownLeaves app) filePath = Some activeView"
      and "editor activeView = Some ed"
  shows "started (handleApprovePermission app v) =
           started v @ [(currentNotePath v,
                         pending\<lparr> req_userPrompt := approvalPrompt,
                                  req_bypassPermissions := Some True,
                                  req_configDir := vault_configDir app \<rparr>)]
       \<and> notices (handleApprovePermission app v) = notices v"
  using assms
  by (cases "getContext (contextManager v) (currentNotePath v)")
     (simp add: handleApprovePermission_def Let_def runnerRun_def frame_assign hidePreview_def
        startElapsedTimeTracking_def)

lemma standaloneFirst_launch:
  "standaloneFirst =
     launch [] (standaloneRequest (units ''help''))
       (prepareRun noNoteApp [] (units ''help'') (standaloneRequest (units ''help''))
          (updateCurrentNoteLabel
             (freshView\<lparr> contextManager := snd (getContext (contextManager freshView) []),
                         promptInput := [],
                         activeStandaloneSession := Some ''/vault/.obsidian/claude-code-sessions/s0'',
                         currentNotePath := ''standalone:/vault/.obsidian/claude-code-sessions/s0'' \<rparr>)))"
proof -
  let ?v3 = "updateCurrentNoteLabel
             (freshView\<lparr> contextManager := snd (getContext (contextManager freshView) []),
                         promptInput := [],
                         activeStandaloneSession := Some ''/vault/.obsidian/claude-code-sessions/s0'',
                         currentNotePath := ''standalone:/vault/.obsidian/claude-code-sessions/s0'' \<rparr>)"
  have cur: "currentNotePath freshView = []" by (simp add: freshView_def)
  have idle: "\<not> isRunning (fst (getContext (contextManager freshView) (currentNotePath freshView)))"
    by (simp add: freshView_def newManager_def getContext_def createNewContext_def)
  have prompt: "trim (promptInput freshView) = units ''help''"
    by (simp add: freshView_def trim_def isWhiteSpace_def units_def)
  have nonempty: "trim (promptInput freshView) \<noteq> []"
    unfolding prompt by (simp add: units_def)
  have base: "getBasePath noNoteApp \<noteq> []" by (simp add: noNoteApp_def noteApp_def)
  have none: "\<not> truthy (activeStandaloneSession freshView)"
    by (simp add: freshView_def truthy_def)
  have active_file: "getActiveFile noNoteApp = None" by (simp add: noNoteApp_def)
  have dir: "createStandaloneSession noNoteApp = Inr ''/vault/.obsidian/claude-code-sessions/s0''"
    by (simp add: noNoteApp_def noteApp_def)
  have 1: "handleRunClaudeCode noNoteApp freshView =
             startRun noNoteApp [] (units ''help'') None None None True ?v3"
    using handleRun_standalone_first [OF idle nonempty base none active_file dir]
    by (simp add: cur prompt)
  have req: "prepareRequest noNoteApp (units ''help'') None None None True ?v3 =
               standaloneRequest (units ''help'')"
    by (simp add: prepareRequest_def standaloneRequest_def frame_updateCurrentNoteLabel
          noNoteApp_def noteApp_def freshView_def)
  have 2: "startRun noNoteApp [] (units ''help'') None None None True ?v3 =
             (None, launch [] (standaloneRequest (units ''help''))
                      (prepareRun noNoteApp [] (units ''help'') (standaloneRequest (units ''help'')) ?v3))"
    using startRun_launches [of True ?v3 None noNoteApp "[]" "units ''help''" None None]
    by (simp add: req)
  show ?thesis by (simp add: standaloneFirst_def 1 2 cur)
qed

lemma standaloneFirst_facts:
  "started standaloneFirst = [([], standaloneRequest (units ''help''))]"
  "notices standaloneFirst = []"
  "currentNotePath standaloneFirst = ''standalone:/vault/.obsidian/claude-code-sessions/s0''"
  "activeStandaloneSession standaloneFirst = Some ''/vault/.obsidian/claude-code-sessions/s0''"
  "modelSelect standaloneFirst = []"
  "conversationalModeCheckbox standaloneFirst = False"
  by (simp_all add: standaloneFirst_launch frame_launch frame_prepareRun
        frame_updateCurrentNoteLabel freshView_def)

lemma standaloneFirst_running:
  "isRunning (fst (getContext (contextManager standaloneFirst) k)) = (k = [])"
  by (simp add: standaloneFirst_launch running_launch running_prepareRun
        context_updateCurrentNoteLabel context_getContext)
     (simp add: freshView_def newManager_def getContext_def createNewContext_def)

lemma standaloneSecond_launch:
  "standaloneSecond =
     launch ''standalone:/vault/.obsidian/claude-code-sessions/s0''
       (standaloneRequest (units ''more''))
       (prepareRun noNoteApp ''standalone:/vault/.obsidian/claude-code-sessions/s0''
          (units ''more'') (standaloneRequest (units ''more''))
          ((typePrompt (units ''more'') standaloneFirst)
             \<lparr> contextManager :=
                 snd (getContext (contextManager (typePrompt (units ''more'') standaloneFirst))
                        (currentNotePath (typePrompt (units ''more'') standaloneFirst))),
               promptInput := [] \<rparr>))"
proof -
  let ?v = "typePrompt (units ''more'') standaloneFirst"
  let ?v1 = "?v\<lparr> contextManager := snd (getContext (contextManager ?v) (currentNotePath ?v)),
                 promptInput := [] \<rparr>"
  have cur: "currentNotePath ?v = ''standalone:/vault/.obsidian/claude-code-sessions/s0''"
    by (simp add: typePrompt_def standaloneFirst_facts)
  have idle: "\<not> isRunning (fst (getContext (contextManager ?v) (currentNotePath ?v)))"
    by (simp add: cur) (simp add: typePrompt_def standaloneFirst_running)
  have prompt: "trim (promptInput ?v) = units ''more''"
    by (simp add: typePrompt_def trim_def isWhiteSpace_def units_def)
  have nonempty: "trim (promptInput ?v) \<noteq> []"
    unfolding prompt by (simp add: units_def)
  have base: "getBasePath noNoteApp \<noteq> []" by (simp add: noNoteApp_def noteApp_def)
  have active: "truthy (activeStandaloneSession ?v)"
    by (simp add: typePrompt_def standaloneFirst_facts truthy_def)
  have active1: "truthy (activeStandaloneSession ?v1)"
    using active by simp
  have 1: "handleRunClaudeCode noNoteApp ?v =
             startRun noNoteApp ''standalone:/vault/.obsidian/claude-code-sessions/s0''
               (units ''more'') None None None True ?v1"
    using handleRun_standalone_next [OF idle nonempty base active]
    unfolding prompt cur .
  have req: "prepareRequest noNoteApp (units ''more'') None None None True ?v1 =
               standaloneRequest (units ''more'')"
    by (simp add: prepareRequest_def standaloneRequest_def typePrompt_def standaloneFirst_facts
          noNoteApp_def noteApp_def)
  have 2: "startRun noNoteApp ''standalone:/vault/.obsidian/claude-code-sessions/s0''
             (units ''more'') None None None True ?v1 =
             (None, launch ''standalone:/vault/.obsidian/claude-code-sessions/s0''
                      (standaloneRequest (units ''more''))
                      (prepareRun noNoteApp ''standalone:/vault/.obsidian/claude-code-sessions/s0''
                         (units ''more'') (standaloneRequest (units ''more'')) ?v1))"
    using startRun_launches [of True ?v1 None noNoteApp
            "''standalone:/vault/.obsidian/claude-code-sessions/s0''" "units ''more''" None None]
          active1
    unfolding req by simp
  show ?thesis
    unfolding standaloneSecond_def 1 2 by simp
qed

lemma standaloneSecond_facts:
  "started standaloneSecond =
     [([], standaloneRequest (units ''help'')),
      (''standalone:/vault/.obsidian/claude-code-sessions/s0'', standaloneRequest (units ''more''))]"
  "notices standaloneSecond = []"
  by (simp_all add: standaloneSecond_launch frame_launch frame_prepareRun typePrompt_def
        standaloneFirst_facts)

lemma pendingRun_launch:
  "pendingRun =
     launch ''a.md'' secondRequest
       (prepareRun noteApp ''a.md'' (units ''second'') secondRequest
          (pendingView\<lparr> contextManager :=
                          snd (getContext (contextManager pendingView) (currentNotePath pendingView)),
                        promptInput := [] \<rparr>))"
proof -
  let ?v1 = "pendingView\<lparr> contextManager :=
                 snd (getContext (contextManager pendingView) (currentNotePath pendingView)),
               promptInput := [] \<rparr>"
  let ?view = "\<lparr> view_file = Some ''a.md'',
                  editor = Some \<lparr> getSelection = [], getValue = ''text'' \<rparr> \<rparr>"
  let ?ed = "\<lparr> getSelection = [], getValue = ''text'' \<rparr>"
  have cur: "currentNotePath pendingView = ''a.md''" by (simp add: pendingView_def)
  have idle: "\<not> isRunning (fst (getContext (contextManager pendingView) (currentNotePath pendingView)))"
    by (simp add: pendingView_def getContext_def pendingContext_def createNewContext_def)
  have prompt: "trim (promptInput pendingView) = units ''second''"
    by (simp add: pendingView_def trim_def isWhiteSpace_def units_def)
  have nonempty: "trim (promptInput pendingView) \<noteq> []"
    unfolding prompt by (simp add: units_def)
  have base: "getBasePath noteApp \<noteq> []" by (simp add: noteApp_def)
  have none: "\<not> truthy (activeStandaloneSession pendingView)"
    by (simp add: pendingView_def truthy_def)
  have active_file: "getActiveFile noteApp = Some ''a.md''" by (simp add: noteApp_def)
  have leaf: "findActiveView (markdownLeaves noteApp) ''a.md'' = Some ?view"
    by (simp add: noteApp_def findActiveView_def findLeaf_def)
  have ed: "editor ?view = Some ?ed" by simp
  have sel: "selectedTextOnlyCheckbox pendingView = False" by (simp add: pendingView_def)
  have 1: "handleRunClaudeCode noteApp pendingView =
             startRun noteApp ''a.md'' (units ''second'') (Some ''a.md'') (Some ''text'') None False ?v1"
    using handleRun_note [OF idle nonempty base none active_file leaf ed]
    unfolding prompt sel by (simp add: cur)
  have req: "prepareRequest noteApp (units ''second'') (Some ''a.md'') (Some ''text'') None False ?v1 =
               secondRequest"
    by (simp add: prepareRequest_def secondRequest_def firstRequest_def pendingView_def noteApp_def)
  have info: "\<exists>d. getSessionInfo noteApp = Inr d" by (simp add: noteApp_def)
  have 2: "startRun noteApp ''a.md'' (units ''second'') (Some ''a.md'') (Some ''text'') None False ?v1 =
             (None, launch ''a.md'' secondRequest
                      (prepareRun noteApp ''a.md'' (units ''second'') secondRequest ?v1))"
    using startRun_launches [of False ?v1 "Some ''a.md''" noteApp "''a.md''" "units ''second''"
            "Some ''text''" None] info
    unfolding req by simp
  show ?thesis
    unfolding pendingRun_def 1 2 by simp
qed

lemma pendingRun_facts:
  "started pendingRun = [(''a.md'', secondRequest)]"
  "notices pendingRun = []"
  "currentNotePath pendingRun = ''a.md''"
  "permissionApprovalShown pendingRun"
  "isRunning (fst (getContext (contextManager pendingRun) ''a.md''))"
  "currentRequest (fst (getContext (contextManager pendingRun) ''a.md'')) = Some secondRequest"
  by (simp_all add: pendingRun_launch frame_launch frame_prepareRun running_launch request_launch
        request_prepareRun pendingView_def)

text \<open>
  C1.  The guard of a run request works on the context that is current when the request
  is made: with that context running, the request is answered with the notice and nothing
  is started.  But a second run is started while the first is in flight, with no notice, in
  two sequences of requests.  In a view with no note, the first request marks the
  context of the empty key as running, while the view moves to the key of the new
  standalone session, whose context is not marked; a second request then starts a second
  run for the same session directory.  In a view whose approval section is shown, a run
  request leaves the section shown, and the approve button, whose handler does not read
  the running flag, starts a second run on the running context of the same note.
\<close>

theorem second_run_started_while_first_in_flight:
  "handleRunClaudeCode noteApp busyView =
     (None, busyView\<lparr> notices := [''notice.alreadyProcessing''] \<rparr>)
   \<and> started standaloneFirst = [([], standaloneRequest (units ''help''))]
   \<and> currentNotePath standaloneFirst = ''standalone:/vault/.obsidian/claude-code-sessions/s0''
   \<and> isRunning (fst (getContext (contextManager standaloneFirst) []))
   \<and> \<not> isRunning (fst (getContext (contextManager standaloneFirst) (currentNotePath standaloneFirst)))
   \<and> started standaloneSecond =
        [([], standaloneRequest (units ''help'')),
         (''standalone:/vault/.obsidian/claude-code-sessions/s0'', standaloneRequest (units ''more''))]
   \<and> notices standaloneSecond = []
   \<and> started pendingRun = [(''a.md'', secondRequest)]
   \<and> isRunning (fst (getContext (contextManager pendingRun) (currentNotePath pendingRun)))
   \<and> permissionApprovalShown pendingRun
   \<and> started approvedRun =
        [(''a.md'', secondRequest),
         (''a.md'', secondRequest\<lparr> req_userPrompt := approvalPrompt,
                                    req_bypassPermissions := Some True \<rparr>)]
   \<and> notices approvedRun = []"
proof -
  have busy: "isRunning (fst (getContext (contextManager busyView) (currentNotePath busyView)))"
    by (simp add: busyView_def oneNoteManager_def getContext_def busyContext_def)
  have same: "snd (getContext (contextManager busyView) (currentNotePath busyView)) =
                contextManager busyView"
    by (simp add: busyView_def oneNoteManager_def getContext_def)
  have 1: "handleRunClaudeCode noteApp busyView =
             (None, busyView\<lparr> notices := [''notice.alreadyProcessing''] \<rparr>)"
    by (simp add: handleRun_rejects [OF busy] same) (simp add: busyView_def)
  have leaf: "findLeaf (markdownLeaves noteApp) ''a.md'' =
                Some \<lparr> view_file = Some ''a.md'',
                       editor = Some \<lparr> getSelection = [], getValue = ''text'' \<rparr> \<rparr>"
    by (simp add: noteApp_def findLeaf_def)
  have pending: "currentRequest (fst (getContext (contextManager pendingRun) (currentNotePath pendingRun)))
                   = Some secondRequest"
    by (simp add: pendingRun_facts)
  have active_file: "getActiveFile noteApp = Some ''a.md''" by (simp add: noteApp_def)
  have 4: "started approvedRun =
        [(''a.md'', secondRequest),
         (''a.md'', secondRequest\<lparr> req_userPrompt := approvalPrompt,
                                    req_bypassPermissions := Some True \<rparr>)]"
    using handleApprove_runs [OF pending active_file leaf]
    by (simp add: approvedRun_def pendingRun_facts)
       (simp add: noteApp_def secondRequest_def firstRequest_def)
  have 5: "notices approvedRun = []"
    using handleApprove_runs [OF pending active_file leaf]
    by (simp add: approvedRun_def pendingRun_facts)
  show ?thesis
    by (simp add: 1 4 5 standaloneFirst_facts standaloneFirst_running standaloneSecond_facts
          pendingRun_facts)
qed

end
